theory Spec2Isabelle
  imports Main "HOL-Library.Word" "HOL-Library.AList"
begin

unbundle bit_operations_syntax

text \<open>
  A model of vidstream-server, a server that replays an uploaded video as a live stream to
  several viewers. The repository holds several generations of its files; the model follows
  the latest ones: the server in src/unnamed/part_000 (app.js), its functions in
  src/unnamed/part_002 (utils/functions.js, of which src/utils/functions.js is an earlier
  generation with the same \<open>generateRandomString\<close> and \<open>killStream\<close>), the username
  check in src/unnamed/part_003 (utils/security.js) and the tables in src/unnamed/part_004
  (utils/utilities.js).
\<close>

section \<open>Strings and bytes\<close>

text \<open>
  A JavaScript string is a sequence of 16-bit code units. String literals of the source are
  written \<open>lit ''...''\<close>.
\<close>

type_synonym jstring = "16 word list"

definition lit :: "string \<Rightarrow> jstring" where
  "lit s = map of_char s"

section \<open>utils/functions.js: generateRandomString\<close>

text \<open>src/utils/functions.js, lines 49 to 60.\<close>

definition charset :: jstring where
  "charset = lit ''ABCDEFGHIJKLMNOPQRSTUVWXYZabcdefghijklmnopqrstuvwxyz0123456789''"

definition charsetLength :: nat where
  "charsetLength = length charset"

text \<open>
  \<open>randomBytes(length)\<close> of the crypto module returns a buffer of \<open>length\<close> bytes. The
  source of randomness is a parameter: byte \<open>i\<close> of the buffer is \<open>rng i\<close>.
\<close>

definition randomBytes :: "(nat \<Rightarrow> 8 word) \<Rightarrow> nat \<Rightarrow> 8 word list" where
  "randomBytes rng n = map rng [0..<n]"

text \<open>
  One round of the loop body: \<open>bytes[i] % charsetLength\<close> indexes the charset. Reading a
  buffer out of range gives \<open>undefined\<close> in JavaScript, the index is then NaN,
  \<open>charset[NaN]\<close> is \<open>undefined\<close> and \<open>+=\<close> appends the text "undefined".
\<close>

definition pick :: "8 word list \<Rightarrow> nat \<Rightarrow> jstring" where
  "pick bytes i =
     (if i < length bytes
      then (let index = unat (bytes ! i) mod charsetLength in [charset ! index])
      else lit ''undefined'')"

function gen_loop :: "8 word list \<Rightarrow> nat \<Rightarrow> nat \<Rightarrow> jstring \<Rightarrow> jstring" where
  "gen_loop bytes len i auth =
     (if i < len then gen_loop bytes len (i + 1) (auth @ pick bytes i) else auth)"
  by pat_completeness auto
termination
  by (relation "measure (\<lambda>(bytes, len, i, auth). len - i)") auto

declare gen_loop.simps [simp del]

definition generateRandomString :: "(nat \<Rightarrow> 8 word) \<Rightarrow> nat \<Rightarrow> jstring" where
  "generateRandomString rng len = gen_loop (randomBytes rng len) len 0 []"

text \<open>The 62 characters the claim names: ASCII upper case, lower case and digits.\<close>

definition alnum62 :: "16 word \<Rightarrow> bool" where
  "alnum62 c \<longleftrightarrow> (0x41 \<le> c \<and> c \<le> 0x5A) \<or> (0x61 \<le> c \<and> c \<le> 0x7A) \<or> (0x30 \<le> c \<and> c \<le> 0x39)"

section \<open>utils/functions.js: getBestQuality\<close>

text \<open>src/unnamed/part_002, lines 150 to 168; the table is src/unnamed/part_004, lines 33 to 39.\<close>

record resolution =
  width :: int
  height :: int

text \<open>The table \<open>resolutions\<close> of utils/utilities.js: pixel counts by tier name.\<close>

definition resolutions :: "(string \<times> int) list" where
  "resolutions =
     [(''8k'', 7680 * 4320), (''4k'', 3840 * 2160), (''1440p'', 2560 * 1440),
      (''1080p'', 1920 * 1080), (''720p'', 1280 * 720)]"

definition res :: "string \<Rightarrow> int" where
  "res k = (case map_of resolutions k of Some v \<Rightarrow> v | None \<Rightarrow> 0)"

text \<open>
  \<open>maxResolution\<close> is a module constant read from the environment; it is a parameter here.
\<close>

definition getBestQuality :: "int \<Rightarrow> int \<Rightarrow> int \<Rightarrow> resolution" where
  "getBestQuality maxResolution w0 h0 =
     (let isPortrait = w0 < h0;
          w = (if isPortrait then h0 else w0);
          h = (if isPortrait then w0 else h0);
          resolution =
            (if maxResolution \<ge> res ''8k'' \<and> w \<ge> 7680 \<and> h \<ge> 4320
               then \<lparr>width = 7680, height = 4320\<rparr>
             else if maxResolution \<ge> res ''4k'' \<and> w \<ge> 3840 \<and> h \<ge> 2160
               then \<lparr>width = 3840, height = 2160\<rparr>
             else if maxResolution \<ge> res ''1440p'' \<and> w \<ge> 2560 \<and> h \<ge> 1440
               then \<lparr>width = 2560, height = 1440\<rparr>
             else if maxResolution \<ge> res ''1080p'' \<and> w \<ge> 1920 \<and> h \<ge> 1080
               then \<lparr>width = 1920, height = 1080\<rparr>
             else \<lparr>width = 1280, height = 720\<rparr>)
      in if isPortrait then \<lparr>width = height resolution, height = width resolution\<rparr>
         else resolution)"

definition tiers :: "resolution list" where
  "tiers =
     [\<lparr>width = 7680, height = 4320\<rparr>, \<lparr>width = 3840, height = 2160\<rparr>,
      \<lparr>width = 2560, height = 1440\<rparr>, \<lparr>width = 1920, height = 1080\<rparr>,
      \<lparr>width = 1280, height = 720\<rparr>]"

definition swapped :: "resolution \<Rightarrow> resolution" where
  "swapped r = \<lparr>width = height r, height = width r\<rparr>"

section \<open>utils/security.js: RegexCheck.username\<close>

text \<open>
  src/unnamed/part_003, lines 1 to 6. The check is \<open>/^[\p{L}\p{N} .\-@_]{3,20}$/u.test(username)\<close>. Under the flag \<open>u\<close> the
  regular expression reads the string as code points: a lead surrogate followed by a trail
  surrogate is one code point, any other code unit stands for itself.
\<close>

definition isLead :: "16 word \<Rightarrow> bool" where
  "isLead u \<longleftrightarrow> 0xD800 \<le> u \<and> u \<le> 0xDBFF"

definition isTrail :: "16 word \<Rightarrow> bool" where
  "isTrail u \<longleftrightarrow> 0xDC00 \<le> u \<and> u \<le> 0xDFFF"

fun codePoints :: "jstring \<Rightarrow> nat list" where
  "codePoints (u # v # r) =
     (if isLead u \<and> isTrail v
      then (0x10000 + (unat u - 0xD800) * 0x400 + (unat v - 0xDC00)) # codePoints r
      else unat u # codePoints (v # r))"
| "codePoints [u] = [unat u]"
| "codePoints [] = []"

text \<open>
  The Unicode general categories \<open>L\<close> (letter) and \<open>N\<close> (number) are tables of the
  regular expression engine, not of this repository: they are parameters. \<open>Nd\<close> (decimal
  digit) is the part of \<open>N\<close> that holds the digits; the code does not read it.
\<close>

record ucd =
  isL :: "nat \<Rightarrow> bool"
  isN :: "nat \<Rightarrow> bool"
  isNd :: "nat \<Rightarrow> bool"

text \<open>The character class \<open>[\p{L}\p{N} .\-@_]\<close>.\<close>

definition usernameClass :: "ucd \<Rightarrow> nat \<Rightarrow> bool" where
  "usernameClass U c \<longleftrightarrow>
     isL U c \<or> isN U c \<or> c = 0x20 \<or> c = 0x2E \<or> c = 0x2D \<or> c = 0x40 \<or> c = 0x5F"

text \<open>
  \<open>X{lo,hi}$\<close> by backtracking: the greedy quantifier takes one more \<open>X\<close> while it may
  and the rest still matches; otherwise it stops, which needs the minimum reached and
  \<open>$\<close> (without the flag \<open>m\<close>: the end of the input) at this position.
\<close>

fun repeatToEnd :: "(nat \<Rightarrow> bool) \<Rightarrow> nat \<Rightarrow> nat \<Rightarrow> nat list \<Rightarrow> bool" where
  "repeatToEnd X lo hi [] = (lo = 0)"
| "repeatToEnd X lo hi (c # cs) =
     ((0 < hi \<and> X c \<and> repeatToEnd X (lo - 1) (hi - 1) cs) \<or> (lo = 0 \<and> c # cs = []))"

text \<open>\<open>^\<close> matches at index 0 only, so \<open>test\<close> succeeds only with a match from there.\<close>

definition RegexCheck_username :: "ucd \<Rightarrow> jstring \<Rightarrow> bool" where
  "RegexCheck_username U username = repeatToEnd (usernameClass U) 3 20 (codePoints username)"

text \<open>
  The format in the words of the claim: only Unicode letters, Unicode digits, spaces and
  the characters \<open>.\<close>, \<open>-\<close>, \<open>_\<close>, \<open>@\<close>, and a length, counted in characters (code
  points), of at least 3 and at most 20.
\<close>

definition username_format_digits :: "ucd \<Rightarrow> jstring \<Rightarrow> bool" where
  "username_format_digits U username \<longleftrightarrow>
     list_all (\<lambda>c. isL U c \<or> isNd U c \<or> c = of_char CHR '' ''
                  \<or> c \<in> {of_char CHR ''.'', of_char CHR ''-'', of_char CHR ''_'', of_char CHR ''@''})
       (codePoints username)
     \<and> 3 \<le> length (codePoints username) \<and> length (codePoints username) \<le> 20"

text \<open>The same format with every Unicode number in the place of the digits.\<close>

definition username_format_numbers :: "ucd \<Rightarrow> jstring \<Rightarrow> bool" where
  "username_format_numbers U username \<longleftrightarrow>
     list_all (\<lambda>c. isL U c \<or> isN U c \<or> c = of_char CHR '' ''
                  \<or> c \<in> {of_char CHR ''.'', of_char CHR ''-'', of_char CHR ''_'', of_char CHR ''@''})
       (codePoints username)
     \<and> 3 \<le> length (codePoints username) \<and> length (codePoints username) \<le> 20"

section \<open>JSON values and the operator ==\<close>

text \<open>
  A value that \<open>JSON.parse\<close> returns. A number of JavaScript is an IEEE 754 double, kept
  as its 64 bits.
\<close>

type_synonym jsnumber = "64 word"

datatype json =
    JNull
  | JBool bool
  | JNumber jsnumber
  | JString jstring
  | JArray "json list"
  | JObject "(jstring \<times> json) list"

text \<open>
  Equality of two numbers: \<open>NaN\<close> (exponent all ones, fraction not zero) equals nothing,
  the two zeros are equal, any other number equals itself only.
\<close>

definition isNaN :: "jsnumber \<Rightarrow> bool" where
  "isNaN x \<longleftrightarrow>
     x AND 0x7FF0000000000000 = 0x7FF0000000000000 \<and> x AND 0x000FFFFFFFFFFFFF \<noteq> 0"

definition isZero :: "jsnumber \<Rightarrow> bool" where
  "isZero x \<longleftrightarrow> x AND 0x7FFFFFFFFFFFFFFF = 0"

definition Number_equal :: "jsnumber \<Rightarrow> jsnumber \<Rightarrow> bool" where
  "Number_equal x y \<longleftrightarrow> \<not> isNaN x \<and> \<not> isNaN y \<and> (x = y \<or> (isZero x \<and> isZero y))"

text \<open>
  The conversions between strings and numbers are those of the engine (they round and
  print doubles): parameters.
\<close>

record conversions =
  StringToNumber :: "jstring \<Rightarrow> jsnumber"
  NumberToString :: "jsnumber \<Rightarrow> jstring"

datatype error = SyntaxError | TypeError | FetchFailed

text \<open>
  \<open>ToString\<close> of a value born of JSON. An array is joined with commas, \<open>null\<close> elements
  giving the empty text. An object has no callable method of its own: it prints as
  \<open>[object Object]\<close> through \<open>Object.prototype.toString\<close>, unless a key \<open>toString\<close> of
  its own hides that method, and then the conversion throws a TypeError. \<open>ToPrimitive\<close>
  of an array or object gives the same, since \<open>valueOf\<close> returns the object itself.
\<close>

fun ToString :: "conversions \<Rightarrow> json \<Rightarrow> error + jstring"
  and join_elements :: "conversions \<Rightarrow> json list \<Rightarrow> error + jstring" where
  "ToString N JNull = Inr (lit ''null'')"
| "ToString N (JBool b) = Inr (if b then lit ''true'' else lit ''false'')"
| "ToString N (JNumber x) = Inr (NumberToString N x)"
| "ToString N (JString s) = Inr s"
| "ToString N (JArray xs) = join_elements N xs"
| "ToString N (JObject kvs) =
     (if lit ''toString'' \<in> fst ` set kvs then Inl TypeError
      else Inr (lit ''[object Object]''))"
| "join_elements N [] = Inr []"
| "join_elements N (x # xs) =
     (case (if x = JNull then Inr [] else ToString N x) of
        Inl err \<Rightarrow> Inl err
      | Inr t \<Rightarrow>
          if xs = [] then Inr t
          else (case join_elements N xs of
                  Inl err \<Rightarrow> Inl err
                | Inr r \<Rightarrow> Inr (t @ lit '','' @ r)))"

text \<open>
  \<open>s == x\<close> for a string \<open>s\<close> and a field \<open>x\<close> of a parsed message (\<open>None\<close> when the
  field is absent, that is \<open>undefined\<close>): \<open>undefined\<close> and \<open>null\<close> equal no string; a
  string is compared as it is; for a number the string is converted to a number; a
  boolean is converted to 1 or 0 first; an array or object is converted to its text.
\<close>

definition loosely_equal :: "conversions \<Rightarrow> jstring \<Rightarrow> json option \<Rightarrow> error + bool" where
  "loosely_equal N s x =
     (case x of
        None \<Rightarrow> Inr False
      | Some JNull \<Rightarrow> Inr False
      | Some (JBool b) \<Rightarrow>
          Inr (Number_equal (StringToNumber N s) (if b then 0x3FF0000000000000 else 0))
      | Some (JNumber y) \<Rightarrow> Inr (Number_equal (StringToNumber N s) y)
      | Some (JString t) \<Rightarrow> Inr (s = t)
      | Some (JArray xs) \<Rightarrow>
          (case ToString N (JArray xs) of Inl err \<Rightarrow> Inl err | Inr t \<Rightarrow> Inr (s = t))
      | Some (JObject kvs) \<Rightarrow>
          (case ToString N (JObject kvs) of Inl err \<Rightarrow> Inl err | Inr t \<Rightarrow> Inr (s = t)))"

section \<open>Inbound messages\<close>

text \<open>
  The fields of a parsed message that the handler reads. The token is compared with \<open>==\<close>,
  which converts its operands, so it is kept as the JSON value it is; the other fields
  are read at their type in the protocol: a string, or absent (\<open>undefined\<close>). An inbound
  text is either not JSON at all (\<open>JSON.parse\<close> throws), or the JSON \<open>null\<close>, or a value
  with these fields (a value that is not an object has none of them).
\<close>

record payload =
  data_stream :: "jstring option"
  data_username :: "jstring option"
  data_token :: "json option"
  data_type :: "jstring option"
  data_message :: "jstring option"

datatype inbound = Unparseable | ParsedNull | Parsed payload

text \<open>Truthiness of a string or \<open>undefined\<close>/\<open>null\<close>: the empty string is falsy.\<close>

definition truthy :: "jstring option \<Rightarrow> bool" where
  "truthy v = (case v of None \<Rightarrow> False | Some s \<Rightarrow> s \<noteq> [])"

section \<open>The shared state of app.js\<close>

datatype stream_state = Stopped | Started

text \<open>
  An entry of \<open>global.streams\<close>. The fields \<open>width\<close> and \<open>height\<close> are those of the
  resolution record; \<open>sid\<close> is the field \<open>id\<close>.
\<close>

record stream = resolution +
  sid :: jstring
  token :: jstring
  state :: stream_state
  fps :: int
  bitrate :: jstring
  directory :: jstring
  video :: jstring
  keepAlive :: int
  timestamp :: int

text \<open>A websocket connection: its identity and \<open>ws.data.ip\<close>.\<close>

record ws =
  conn :: nat
  data_ip :: jstring

text \<open>A value of \<open>websocketClients\<close>; the field \<open>stream\<close> is the id of the watched stream.\<close>

record client =
  username :: jstring
  ip :: jstring
  country :: "jstring option"
  stream :: jstring
  host :: bool

text \<open>The handle of a spawned transcoder (\<open>Bun.spawn\<close>).\<close>

record proc =
  pid :: nat
  killed :: bool

text \<open>
  A run of the handler \<open>message\<close> that is suspended at \<open>await fetch(...)\<close> in its
  subscription branch, with what it holds: the socket \<open>ws\<close>, the parsed \<open>data\<close>, its
  fields \<open>username\<close> and \<open>stream\<close> (checked before: non-empty strings) and the
  variable \<open>streamToken\<close>.
\<close>

record suspended =
  ws_of :: ws
  data_of :: payload
  username_of :: jstring
  stream_of :: jstring
  streamToken :: jstring

text \<open>
  The three \<open>Map\<close>s are association lists in insertion order with unique keys:
  \<open>map_of\<close> is \<open>get\<close>, \<open>AList.update\<close> is \<open>set\<close> (in place for a known key, at the end
  otherwise), \<open>AList.delete\<close> is \<open>delete\<close>. \<open>subscriptions\<close> are the topic subscriptions
  kept by the server (\<open>ws.subscribe\<close>, \<open>ws.unsubscribe\<close>), \<open>dirs\<close> the directories that
  exist on disk, \<open>pending\<close> the suspended runs of \<open>message\<close>, oldest first.
\<close>

record world =
  streams :: "(jstring \<times> stream) list"
  ffmpegProcesses :: "(jstring \<times> proc) list"
  websocketClients :: "(ws \<times> client) list"
  subscriptions :: "(ws \<times> jstring) list"
  dirs :: "jstring list"
  pending :: "suspended list"

text \<open>
  The first argument of \<open>killStream\<close> is a string at some call sites and the result of
  \<open>global.ffmpegProcesses.get(id)\<close> (a process handle, or \<open>undefined\<close>) at another. The
  keys of the maps are strings, so only a string can be found in them.
\<close>

datatype jsid = Undefined | Str jstring | Handle proc

definition has_id :: "(jstring \<times> 'v) list \<Rightarrow> jsid \<Rightarrow> bool" where
  "has_id m k = (case k of Str s \<Rightarrow> map_of m s \<noteq> None | _ \<Rightarrow> False)"

definition get_id :: "(jstring \<times> 'v) list \<Rightarrow> jsid \<Rightarrow> 'v option" where
  "get_id m k = (case k of Str s \<Rightarrow> map_of m s | _ \<Rightarrow> None)"

definition delete_id :: "jsid \<Rightarrow> (jstring \<times> 'v) list \<Rightarrow> (jstring \<times> 'v) list" where
  "delete_id k m = (case k of Str s \<Rightarrow> AList.delete s m | _ \<Rightarrow> m)"

definition handle_or_undefined :: "proc option \<Rightarrow> jsid" where
  "handle_or_undefined r = (case r of None \<Rightarrow> Undefined | Some p \<Rightarrow> Handle p)"

section \<open>Messages and effects\<close>

datatype cause =
    InvalidJSON                 \<comment> \<open>Invalid JSON\<close>
  | NoStreamSupplied            \<comment> \<open>No stream supplied!\<close>
  | StreamDoesNotExist "jstring option"  \<comment> \<open>Stream ... doesn't exist!\<close>
  | NoUsernameSupplied          \<comment> \<open>No username supplied!\<close>
  | InvalidUsername             \<comment> \<open>Only alphabetical characters, numbers, ...\<close>
  | StreamEnded "jstring option"  \<comment> \<open>Stream ... ended!\<close>
  | AlreadyStarted              \<comment> \<open>This stream has already started!\<close>
  | NotHost                     \<comment> \<open>You're not the host!\<close>
  | NotStartedYet               \<comment> \<open>This stream hasn't even started yet!\<close>
  | NoMessage                   \<comment> \<open>No message!\<close>
  | UnknownType                 \<comment> \<open>This type doesn't exist!\<close>

datatype notice =
    NowWatching jstring         \<comment> \<open>Now watching stream ...!\<close>
  | StreamStarted               \<comment> \<open>Stream started!\<close>
  | KeepAliveRegistered         \<comment> \<open>Keep alive registered!\<close>

text \<open>
  The objects given to \<open>JSON.stringify\<close>. The first argument of the first three is the
  field \<open>type\<close>, copied from \<open>data.type\<close> (left out of the text when \<open>undefined\<close>).
\<close>

datatype outmsg =
    Failure "jstring option" cause
  | Success "jstring option" notice
  | Chat "jstring option" jstring bool "jstring option" jstring
  | Info jstring stream_state nat

fun type_field :: "outmsg \<Rightarrow> jstring option" where
  "type_field (Failure t c) = t"
| "type_field (Success t n) = t"
| "type_field (Chat t u h c m) = t"
| "type_field (Info i s n) = Some (lit ''info'')"

datatype effect =
    Send ws outmsg              \<comment> \<open>ws.send\<close>
  | Publish jstring outmsg      \<comment> \<open>server.publish(topic, ...)\<close>
  | Close ws                    \<comment> \<open>ws.close()\<close>
  | Spawn stream proc           \<comment> \<open>Bun.spawn of the transcoder for the stream\<close>
  | Kill proc                   \<comment> \<open>ffmpeg.kill("SIGKILL")\<close>

text \<open>
  What a handler leaves behind: the error it threw, if any, the effects up to there and
  the state up to there.
\<close>

type_synonym outcome = "error option \<times> effect list \<times> world"

text \<open>Delivery of a broadcast: every connection subscribed to the topic gets the text.\<close>

definition subscribers :: "world \<Rightarrow> jstring \<Rightarrow> ws list" where
  "subscribers w topic = map fst (filter (\<lambda>(c, t). t = topic) (subscriptions w))"

fun delivered :: "world \<Rightarrow> effect \<Rightarrow> (ws \<times> outmsg) list" where
  "delivered w (Send c m) = [(c, m)]"
| "delivered w (Publish topic m) = map (\<lambda>c. (c, m)) (subscribers w topic)"
| "delivered w (Close c) = []"
| "delivered w (Spawn s p) = []"
| "delivered w (Kill p) = []"

section \<open>The file system\<close>

text \<open>
  Only directories are tracked. \<open>rmdir(path, { recursive: true })\<close> removes the directory
  and all beneath it and passes when there is none (the empty path names none);
  \<open>mkdir\<close> with \<open>recursive\<close> passes when the directory exists.
\<close>

definition beneath :: "jstring \<Rightarrow> jstring \<Rightarrow> bool" where
  "beneath p q \<longleftrightarrow> p \<noteq> [] \<and> (q = p \<or> take (length p + 1) q = p @ lit ''/'')"

definition rmdir :: "jstring \<Rightarrow> jstring list \<Rightarrow> jstring list" where
  "rmdir p ds = filter (\<lambda>q. \<not> beneath p q) ds"

definition mkdir :: "jstring \<Rightarrow> jstring list \<Rightarrow> jstring list" where
  "mkdir p ds = (if p \<in> set ds then ds else ds @ [p])"

text \<open>
  \<open>exists(path)\<close> is an async function around \<open>stat\<close>: what a call returns is a
  promise of the answer. A promise is an object, and every object is truthy.
\<close>

datatype 'a promise = Promise 'a

definition exists :: "jstring option \<Rightarrow> jstring list \<Rightarrow> bool promise" where
  "exists path ds = Promise (case path of None \<Rightarrow> False | Some p \<Rightarrow> p \<in> set ds)"

definition truthy_object :: "'a promise \<Rightarrow> bool" where
  "truthy_object p = True"

section \<open>utils/functions.js: startStream and killStream\<close>

text \<open>
  src/unnamed/part_002, lines 205 to 292 (\<open>killStream\<close> also src/utils/functions.js,
  lines 200 to 218). \<open>startStream\<close> makes the working directory, spawns the transcoder
  (the new handle is \<open>ffmpeg\<close>; the spawn is taken to succeed) and registers the handle
  under \<open>stream.id\<close>.
\<close>

definition startStream :: "proc \<Rightarrow> stream \<Rightarrow> world \<Rightarrow> effect list \<times> world" where
  "startStream ffmpeg s w =
     ([Spawn s ffmpeg],
      w\<lparr>dirs := mkdir (directory s) (dirs w),
        ffmpegProcesses := AList.update (sid s) ffmpeg (ffmpegProcesses w)\<rparr>)"

text \<open>
  The continuation of \<open>ffmpeg.exited\<close> that \<open>startStream\<close> installs, with the \<open>id\<close> and
  \<open>directory\<close> it captured; it runs when the transcoder has exited.
\<close>

definition ffmpeg_exited :: "jstring \<Rightarrow> jstring \<Rightarrow> world \<Rightarrow> world" where
  "ffmpeg_exited id0 directory0 w =
     w\<lparr>dirs := rmdir directory0 (dirs w),
       streams := AList.delete id0 (streams w),
       ffmpegProcesses := AList.delete id0 (ffmpegProcesses w)\<rparr>"

text \<open>
  \<open>rmdir(path, { recursive: true, force: true })\<close> on a path that may still be \<open>null\<close>:
  the path argument must be a string, otherwise the call throws a TypeError.
\<close>

definition rmdir_call :: "jstring option \<Rightarrow> world \<Rightarrow> error + world" where
  "rmdir_call path w =
     (case path of
        None \<Rightarrow> Inl TypeError
      | Some p \<Rightarrow> Inr (w\<lparr>dirs := rmdir p (dirs w)\<rparr>))"

text \<open>
  \<open>killStream(id, streamPath = null)\<close>. The test \<open>if (exists(streamPath))\<close> reads the
  promise that \<open>exists\<close> returns, not its answer (there is no \<open>await\<close>), so \<open>rmdir\<close>
  is called whatever the path.
\<close>

definition killStream :: "jsid \<Rightarrow> jstring option \<Rightarrow> world \<Rightarrow> outcome" where
  "killStream id0 streamPath w =
     (let effs = (case get_id (ffmpegProcesses w) id0 of
                    Some ffmpeg \<Rightarrow> [Kill ffmpeg]
                  | None \<Rightarrow> []);
          w1 = (if has_id (ffmpegProcesses w) id0
                then w\<lparr>ffmpegProcesses := delete_id id0 (ffmpegProcesses w)\<rparr>
                else w);
          streamPath1 = (if \<not> truthy streamPath \<and> has_id (streams w1) id0
                         then map_option directory (get_id (streams w1) id0)
                         else streamPath)
      in case (if truthy_object (exists streamPath1 (dirs w1))
               then rmdir_call streamPath1 w1
               else Inr w1) of
           Inl err \<Rightarrow> (Some err, effs, w1)
         | Inr w2 \<Rightarrow>
             (None, effs,
              if has_id (streams w2) id0
              then w2\<lparr>streams := delete_id id0 (streams w2)\<rparr>
              else w2))"

section \<open>app.js: the websocket handlers\<close>

text \<open>
  src/unnamed/part_000, lines 182 to 334. The subscription branch of \<open>message\<close> is two
  steps, before and after its \<open>await fetch(...)\<close>: other handlers run in between. Every
  other handler is one step. The first part of the subscription branch is one step across
  \<open>await RegexCheck.username(...)\<close>, whose promise is resolved when it is awaited. The
  command \<open>start\<close> is followed as one step as well: its checks come before its
  \<open>await startStream(stream)\<close>, and what other handlers do during that \<open>await\<close> is
  not followed.

  The handlers \<open>open\<close> and \<open>close\<close> have the same body: a known connection is
  unsubscribed from its stream and forgotten.
\<close>

definition forget :: "ws \<Rightarrow> world \<Rightarrow> world" where
  "forget c w =
     (case map_of (websocketClients w) c of
        None \<Rightarrow> w
      | Some cl \<Rightarrow>
          w\<lparr>subscriptions := removeAll (c, stream cl) (subscriptions w),
            websocketClients := AList.delete c (websocketClients w)\<rparr>)"

text \<open>
  \<open>ws.close()\<close>: the handler \<open>close\<close> runs and the server drops the subscriptions of the
  closed socket.
\<close>

definition ws_close :: "ws \<Rightarrow> world \<Rightarrow> world" where
  "ws_close c w =
     (let w1 = forget c w
      in w1\<lparr>subscriptions := filter (\<lambda>(c', t). c' \<noteq> c) (subscriptions w1)\<rparr>)"

definition ws_subscribe :: "ws \<Rightarrow> jstring \<Rightarrow> world \<Rightarrow> world" where
  "ws_subscribe c topic w =
     (if (c, topic) \<in> set (subscriptions w) then w
      else w\<lparr>subscriptions := subscriptions w @ [(c, topic)]\<rparr>)"

text \<open>
  What a run of the handler \<open>message\<close> takes from outside: the clock (\<open>Date.now()\<close>) and
  the handle of the transcoder it may spawn.
\<close>

record env =
  now :: int
  ffmpeg :: proc

text \<open>
  The answer of the country lookup: the request fails, or it gives an object whose
  \<open>country_code\<close> is a string or is missing.
\<close>

datatype lookup = LookupFailed | Country "jstring option"

definition reject :: "ws \<Rightarrow> payload \<Rightarrow> cause \<Rightarrow> world \<Rightarrow> outcome" where
  "reject c d why w = (None, [Send c (Failure (data_type d) why), Close c], ws_close c w)"

text \<open>
  The branch \<open>if (!websocketClients.has(ws))\<close>, up to its \<open>await\<close>: the checks, the
  read of the stream's token, \<open>ws.subscribe\<close>, and in the object literal the reads of
  \<open>data.username\<close> and \<open>ws.data.ip\<close>; then the lookup is under way and the run is
  suspended. Nothing is sent and \<open>websocketClients\<close> is as before.
\<close>

definition subscribe :: "ucd \<Rightarrow> ws \<Rightarrow> payload \<Rightarrow> world \<Rightarrow> outcome" where
  "subscribe U c d w =
     (case data_stream d of
        None \<Rightarrow> reject c d (StreamDoesNotExist (data_stream d)) w
      | Some id0 \<Rightarrow>
     (case map_of (streams w) id0 of
        None \<Rightarrow> reject c d (StreamDoesNotExist (data_stream d)) w
      | Some s \<Rightarrow>
     if id0 = [] then reject c d (StreamDoesNotExist (data_stream d)) w
     else
     (case data_username d of
        None \<Rightarrow> reject c d NoUsernameSupplied w
      | Some username0 \<Rightarrow>
          if username0 = [] then reject c d NoUsernameSupplied w
          else if \<not> RegexCheck_username U username0 then reject c d InvalidUsername w
          else
            (let w1 = ws_subscribe c id0 w
             in (None, [],
                 w1\<lparr>pending := pending w1 @
                      [\<lparr>ws_of = c, data_of = d, username_of = username0, stream_of = id0,
                        streamToken = token s\<rparr>]\<rparr>)))))"

text \<open>
  The rest of the branch, run when the lookup has answered: a failed lookup throws;
  otherwise \<open>stream: data.stream\<close> and \<open>host: streamToken == data.token\<close> are evaluated
  (the comparison may throw), the entry is written with \<open>websocketClients.set\<close> and the
  answer is sent.
\<close>

definition resume :: "conversions \<Rightarrow> suspended \<Rightarrow> lookup \<Rightarrow> world \<Rightarrow> outcome" where
  "resume N p answer w =
     (case answer of
        LookupFailed \<Rightarrow> (Some FetchFailed, [], w)
      | Country code \<Rightarrow>
          (case loosely_equal N (streamToken p) (data_token (data_of p)) of
             Inl err \<Rightarrow> (Some err, [], w)
           | Inr equal \<Rightarrow>
               (None,
                [Send (ws_of p)
                   (Success (data_type (data_of p)) (NowWatching (stream_of p)))],
                w\<lparr>websocketClients :=
                     AList.update (ws_of p)
                       \<lparr>username = username_of p, ip = data_ip (ws_of p), country = code,
                        stream = stream_of p, host = equal\<rparr>
                       (websocketClients w)\<rparr>)))"

text \<open>The \<open>switch (data.type)\<close> for a known connection \<open>cl\<close> watching the stream \<open>s\<close>.\<close>

definition touch :: "env \<Rightarrow> client \<Rightarrow> stream \<Rightarrow> world \<Rightarrow> world" where
  "touch e cl s w = w\<lparr>streams := AList.update (stream cl) (s\<lparr>keepAlive := now e\<rparr>) (streams w)\<rparr>"

definition command :: "env \<Rightarrow> ws \<Rightarrow> payload \<Rightarrow> client \<Rightarrow> stream \<Rightarrow> world \<Rightarrow> outcome" where
  "command e c d cl s w =
     (if data_type d = Some (lit ''start'') then
        (if state s = Started \<or> map_of (ffmpegProcesses w) (stream cl) \<noteq> None
           then (None, [Send c (Failure (data_type d) AlreadyStarted)], w)
         else if \<not> host cl
           then (None, [Send c (Failure (data_type d) NotHost)], w)
         else
           (case startStream (ffmpeg e) s w of
              (effs, w1) \<Rightarrow>
                (None,
                 effs @ [Send c (Success (data_type d) StreamStarted)],
                 touch e cl (s\<lparr>state := Started\<rparr>) w1)))
      else if data_type d = Some (lit ''keepAlive'') then
        (if state s \<noteq> Started \<or> map_of (ffmpegProcesses w) (stream cl) = None
           then (None, [Send c (Failure (data_type d) NotStartedYet)], w)
         else (None, [Send c (Success (data_type d) KeepAliveRegistered)], touch e cl s w))
      else if data_type d = Some (lit ''message'') then
        (case data_message d of
           None \<Rightarrow> (None, [Send c (Failure (data_type d) NoMessage)], w)
         | Some body \<Rightarrow>
             if body = [] then (None, [Send c (Failure (data_type d) NoMessage)], w)
             else
               (None,
                [Publish (stream cl)
                   (Chat (data_type d) (username cl) (host cl) (country cl) body)],
                touch e cl s w))
      else (None, [Send c (Failure (data_type d) UnknownType)], w))"

text \<open>The handler past \<open>JSON.parse\<close>, for a message with the fields \<open>d\<close>.\<close>

definition dispatch :: "ucd \<Rightarrow> env \<Rightarrow> ws \<Rightarrow> payload \<Rightarrow> world \<Rightarrow> outcome" where
  "dispatch U e c d w =
     (if \<not> truthy (data_stream d) then reject c d NoStreamSupplied w
      else
        (case map_of (websocketClients w) c of
           None \<Rightarrow> subscribe U c d w
         | Some cl \<Rightarrow>
             (case map_of (streams w) (stream cl) of
                None \<Rightarrow> reject c d (StreamEnded (data_stream d)) w
              | Some s \<Rightarrow> command e c d cl s w)))"

text \<open>
  The variable \<open>data\<close>: declared by \<open>let data;\<close> and so \<open>undefined\<close> until
  \<open>JSON.parse\<close> has returned; then \<open>null\<close> or a value with fields. Reading a field of
  \<open>undefined\<close> or of \<open>null\<close> throws a TypeError.
\<close>

datatype jsdata = Unassigned | Null | Value payload

definition JSON_parse :: "inbound \<Rightarrow> error + jsdata" where
  "JSON_parse m =
     (case m of
        Unparseable \<Rightarrow> Inl SyntaxError
      | ParsedNull \<Rightarrow> Inr Null
      | Parsed d \<Rightarrow> Inr (Value d))"

definition fields_of :: "jsdata \<Rightarrow> error + payload" where
  "fields_of data =
     (case data of
        Unassigned \<Rightarrow> Inl TypeError
      | Null \<Rightarrow> Inl TypeError
      | Value d \<Rightarrow> Inr d)"

text \<open>
  The handler \<open>message(ws, message)\<close>. Its \<open>catch\<close> block answers "Invalid JSON" with
  \<open>type: data.type\<close>, where \<open>data\<close> has not been assigned; past the \<open>try\<close> the first
  read is \<open>data.stream\<close>.
\<close>

definition message :: "ucd \<Rightarrow> env \<Rightarrow> ws \<Rightarrow> inbound \<Rightarrow> world \<Rightarrow> outcome" where
  "message U e c m w =
     (case JSON_parse m of
        Inl thrown \<Rightarrow>
          (case fields_of Unassigned of
             Inl err \<Rightarrow> (Some err, [], w)
           | Inr d \<Rightarrow> (None, [Send c (Failure (data_type d) InvalidJSON)], w))
      | Inr data \<Rightarrow>
          (case fields_of data of
             Inl err \<Rightarrow> (Some err, [], w)
           | Inr d \<Rightarrow> dispatch U e c d w))"

section \<open>app.js: the periodic sweeps\<close>

text \<open>
  src/unnamed/part_000, lines 345 to 383. A sweep is one step as well, and reads the clock
  once.
\<close>

definition viewers :: "world \<Rightarrow> jstring \<Rightarrow> nat" where
  "viewers w id0 = length (filter (\<lambda>(c, cl). stream cl = id0) (websocketClients w))"

text \<open>
  One round of the keep-alive sweep, for the entry \<open>(id, stream)\<close>. The call is
  \<open>killStream(global.ffmpegProcesses.get(id), stream.directory)\<close>: its first argument is
  the process handle (or \<open>undefined\<close>), not the id.
\<close>

definition reap :: "int \<Rightarrow> int \<Rightarrow> jstring \<Rightarrow> stream \<Rightarrow> world \<Rightarrow> outcome" where
  "reap MAX_KEEP_ALIVE t id0 s w =
     (let n = viewers w id0 in
      case (if t - keepAlive s > MAX_KEEP_ALIVE
            then killStream (handle_or_undefined (map_of (ffmpegProcesses w) id0))
                   (Some (directory s)) w
            else (None, [], w)) of
        (Some err, effs, w1) \<Rightarrow> (Some err, effs, w1)
      | (None, effs, w1) \<Rightarrow>
          (None,
           effs @ (if 0 < n then [Publish id0 (Info id0 (state s) n)] else []),
           w1))"

text \<open>
  \<open>for (const [id, stream] of global.streams)\<close> over the entries present when the sweep
  starts; an entry deleted before its turn is skipped, as the iterator of a \<open>Map\<close> does.
\<close>

fun reaper_loop :: "int \<Rightarrow> int \<Rightarrow> jstring list \<Rightarrow> world \<Rightarrow> outcome" where
  "reaper_loop M t [] w = (None, [], w)"
| "reaper_loop M t (id0 # ids) w =
     (case map_of (streams w) id0 of
        None \<Rightarrow> reaper_loop M t ids w
      | Some s \<Rightarrow>
          (case reap M t id0 s w of
             (Some err, effs, w1) \<Rightarrow> (Some err, effs, w1)
           | (None, effs, w1) \<Rightarrow>
               (case reaper_loop M t ids w1 of
                  (err, effs2, w2) \<Rightarrow> (err, effs @ effs2, w2))))"

definition reaper :: "int \<Rightarrow> int \<Rightarrow> world \<Rightarrow> outcome" where
  "reaper MAX_KEEP_ALIVE t w = reaper_loop MAX_KEEP_ALIVE t (map fst (streams w)) w"

text \<open>
  The second sweep: a process whose stream is gone is killed through
  \<open>killStream(id, join(streamsDirectory, id))\<close>, or only forgotten when already killed;
  an error is caught and logged.
\<close>

definition join :: "jstring \<Rightarrow> jstring \<Rightarrow> jstring" where
  "join a b = a @ lit ''/'' @ b"

definition reconcile :: "jstring \<Rightarrow> jstring \<Rightarrow> proc \<Rightarrow> world \<Rightarrow> effect list \<times> world" where
  "reconcile streamsDirectory id0 p w =
     (if map_of (streams w) id0 = None then
        (if \<not> killed p
         then (case killStream (Str id0) (Some (join streamsDirectory id0)) w of
                 (err, effs, w1) \<Rightarrow> (effs, w1))
         else ([], w\<lparr>ffmpegProcesses := AList.delete id0 (ffmpegProcesses w)\<rparr>))
      else ([], w))"

fun orphans_loop :: "jstring \<Rightarrow> jstring list \<Rightarrow> world \<Rightarrow> effect list \<times> world" where
  "orphans_loop dir0 [] w = ([], w)"
| "orphans_loop dir0 (id0 # ids) w =
     (case map_of (ffmpegProcesses w) id0 of
        None \<Rightarrow> orphans_loop dir0 ids w
      | Some p \<Rightarrow>
          (case reconcile dir0 id0 p w of
             (effs, w1) \<Rightarrow>
               (case orphans_loop dir0 ids w1 of (effs2, w2) \<Rightarrow> (effs @ effs2, w2))))"

definition orphans :: "jstring \<Rightarrow> world \<Rightarrow> effect list \<times> world" where
  "orphans streamsDirectory w =
     orphans_loop streamsDirectory (map fst (ffmpegProcesses w)) w"

section \<open>Runs of the server\<close>

text \<open>
  The upload handler ends with \<open>global.streams.set(id, {...})\<close> for a new stream whose
  directory it has made; the rest of that handler is not modelled.
\<close>

definition uploaded :: "stream \<Rightarrow> world \<Rightarrow> world" where
  "uploaded s w =
     w\<lparr>dirs := mkdir (directory s) (dirs w),
       streams := AList.update (sid s) s (streams w)\<rparr>"

record config =
  unicode :: ucd
  numbers :: conversions
  MAX_KEEP_ALIVE :: int
  streamsDirectory :: jstring

text \<open>
  The events of a run. \<open>Fetched k answer\<close>: the lookup of the suspended run at index \<open>k\<close>
  of \<open>pending\<close> has answered, and that run goes on; lookups may answer in any order.
\<close>

datatype event =
    Message env ws inbound
  | Fetched nat lookup
  | Opened ws
  | Closed ws
  | Reaper int
  | Orphans
  | Exited jstring jstring
  | Uploaded stream

fun step :: "config \<Rightarrow> event \<Rightarrow> world \<Rightarrow> outcome" where
  "step cf (Message e c m) w = message (unicode cf) e c m w"
| "step cf (Fetched k answer) w =
     (if k < length (pending w)
      then resume (numbers cf) (pending w ! k) answer
             (w\<lparr>pending := take k (pending w) @ drop (Suc k) (pending w)\<rparr>)
      else (None, [], w))"
| "step cf (Opened c) w = (None, [], forget c w)"
| "step cf (Closed c) w = (None, [], ws_close c w)"
| "step cf (Reaper t) w = reaper (MAX_KEEP_ALIVE cf) t w"
| "step cf Orphans w = (case orphans (streamsDirectory cf) w of (effs, w1) \<Rightarrow> (None, effs, w1))"
| "step cf (Exited id0 dir0) w = (None, [], ffmpeg_exited id0 dir0 w)"
| "step cf (Uploaded s) w = (None, [], uploaded s w)"

text \<open>
  An error thrown by a handler is caught by none of them. The server goes on serving the
  open sockets: the listeners of the process for \<open>unhandledRejection\<close> and
  \<open>uncaughtException\<close>, where they run, first wait for \<open>log.fatal(...)\<close> and for
  \<open>server.stop()\<close>, which lets the open connections go on. So the run goes on from the
  state the handler left.
\<close>

fun run :: "config \<Rightarrow> event list \<Rightarrow> world \<Rightarrow> world" where
  "run cf [] w = w"
| "run cf (ev # evs) w = (case step cf ev w of (err, effs, w1) \<Rightarrow> run cf evs w1)"

text \<open>
  A connection stays subscribed through a run when it is in \<open>websocketClients\<close> at the
  start and after every event.
\<close>

fun subscribed_throughout :: "config \<Rightarrow> ws \<Rightarrow> event list \<Rightarrow> world \<Rightarrow> bool" where
  "subscribed_throughout cf c [] w = (map_of (websocketClients w) c \<noteq> None)"
| "subscribed_throughout cf c (ev # evs) w =
     (map_of (websocketClients w) c \<noteq> None \<and>
      (case step cf ev w of (err, effs, w1) \<Rightarrow> subscribed_throughout cf c evs w1))"

text \<open>No run of \<open>message\<close> for the connection is suspended.\<close>

definition none_pending :: "ws \<Rightarrow> world \<Rightarrow> bool" where
  "none_pending c w \<longleftrightarrow> list_all (\<lambda>p. ws_of p \<noteq> c) (pending w)"

section \<open>Sample data for the worked instances\<close>

text \<open>
  The rows of the Unicode tables for the code points below 256 (Basic Latin and Latin-1
  Supplement): the letters, the numbers (the digits, the superscripts U+00B2, U+00B3 and
  U+00B9, the fractions U+00BC to U+00BE) and the decimal digits.
\<close>

definition latin1_letter :: "nat \<Rightarrow> bool" where
  "latin1_letter c \<longleftrightarrow>
     (0x41 \<le> c \<and> c \<le> 0x5A) \<or> (0x61 \<le> c \<and> c \<le> 0x7A) \<or> c = 0xAA \<or> c = 0xB5 \<or> c = 0xBA
     \<or> (0xC0 \<le> c \<and> c \<le> 0xD6) \<or> (0xD8 \<le> c \<and> c \<le> 0xF6) \<or> (0xF8 \<le> c \<and> c \<le> 0xFF)"

definition latin1_digit :: "nat \<Rightarrow> bool" where
  "latin1_digit c \<longleftrightarrow> 0x30 \<le> c \<and> c \<le> 0x39"

definition latin1_number :: "nat \<Rightarrow> bool" where
  "latin1_number c \<longleftrightarrow>
     latin1_digit c \<or> c = 0xB2 \<or> c = 0xB3 \<or> c = 0xB9 \<or> (0xBC \<le> c \<and> c \<le> 0xBE)"

definition latin1_rows :: ucd where
  "latin1_rows = \<lparr>isL = latin1_letter, isN = latin1_number, isNd = latin1_digit\<rparr>"

text \<open>
  Rows beyond the basic plane: the bold letters U+1D400 to U+1D433 of the block
  Mathematical Alphanumeric Symbols, each one two code units in a string.
\<close>

definition bold_letter :: "nat \<Rightarrow> bool" where
  "bold_letter c \<longleftrightarrow> 0x1D400 \<le> c \<and> c \<le> 0x1D433"

definition bold_rows :: ucd where
  "bold_rows = \<lparr>isL = bold_letter, isN = latin1_number, isNd = latin1_digit\<rparr>"

text \<open>The letter U+1D400 as a string, and strings of two and of eleven of them.\<close>

definition bold_A :: jstring where
  "bold_A = [0xD835, 0xDC00]"

definition bold2 :: jstring where
  "bold2 = bold_A @ bold_A"

definition bold11 :: jstring where
  "bold11 = bold2 @ bold2 @ bold2 @ bold2 @ bold2 @ bold_A"

text \<open>
  The sample runs convert no number; in the place of the engine's conversions stands the
  one that reads every string as \<open>NaN\<close> and prints every number as \<open>NaN\<close>.
\<close>

definition not_a_number :: "jstring \<Rightarrow> jsnumber" where
  "not_a_number s = 0x7FF8000000000000"

definition print_NaN :: "jsnumber \<Rightarrow> jstring" where
  "print_NaN x = lit ''NaN''"

definition no_numbers :: conversions where
  "no_numbers = \<lparr>StringToNumber = not_a_number, NumberToString = print_NaN\<rparr>"

definition sample_rng :: "nat \<Rightarrow> 8 word" where
  "sample_rng i = of_nat (i * 50 + 7)"

definition S1 :: jstring where
  "S1 = lit ''AbCdEfGhIjKlMnOpQrStUvWxYz012345''"

definition T1 :: jstring where
  "T1 = lit ''T0k3nT0k3nT0k3n1''"

definition streams_dir :: jstring where
  "streams_dir = lit ''/app/streams''"

definition dir1 :: jstring where
  "dir1 = lit ''/app/streams/AbCdEfGhIjKlMnOpQrStUvWxYz012345''"

text \<open>A stream as the upload handler registers it, created at time 0.\<close>

definition stream1 :: stream where
  "stream1 =
     \<lparr>width = 1920, height = 1080, sid = S1, token = T1, state = Stopped, fps = 30,
      bitrate = lit ''8000k'', directory = dir1,
      video = lit ''/app/streams/AbCdEfGhIjKlMnOpQrStUvWxYz012345/video.mp4'',
      keepAlive = 0, timestamp = 0\<rparr>"

definition ws1 :: ws where
  "ws1 = \<lparr>conn = 1, data_ip = lit ''203.0.113.7''\<rparr>"

definition ws2 :: ws where
  "ws2 = \<lparr>conn = 2, data_ip = lit ''198.51.100.9''\<rparr>"

definition host1 :: client where
  "host1 =
     \<lparr>username = lit ''alice'', ip = lit ''203.0.113.7'', country = Some (lit ''FR''),
      stream = S1, host = True\<rparr>"

definition bob1 :: client where
  "bob1 =
     \<lparr>username = lit ''bob'', ip = lit ''203.0.113.7'', country = Some (lit ''FR''),
      stream = S1, host = False\<rparr>"

definition viewer2 :: client where
  "viewer2 =
     \<lparr>username = lit ''carol'', ip = lit ''198.51.100.9'', country = None,
      stream = S1, host = False\<rparr>"

definition proc1 :: proc where
  "proc1 = \<lparr>pid = 4242, killed = False\<rparr>"

text \<open>
  \<open>world1\<close>: the stream alone. \<open>world2\<close>: its host has subscribed. \<open>world3\<close>: the host
  has started it, last activity at time 2000. \<open>world4\<close>: as \<open>world2\<close>, with a second
  viewer. \<open>world5\<close>: as \<open>world2\<close>, after the stream is gone from the registry.
\<close>

definition world1 :: world where
  "world1 =
     \<lparr>streams = [(S1, stream1)], ffmpegProcesses = [], websocketClients = [],
      subscriptions = [], dirs = [streams_dir, dir1], pending = []\<rparr>"

definition world2 :: world where
  "world2 =
     \<lparr>streams = [(S1, stream1)], ffmpegProcesses = [], websocketClients = [(ws1, host1)],
      subscriptions = [(ws1, S1)], dirs = [streams_dir, dir1], pending = []\<rparr>"

definition world3 :: world where
  "world3 =
     \<lparr>streams = [(S1, stream1\<lparr>state := Started, keepAlive := 2000\<rparr>)],
      ffmpegProcesses = [(S1, proc1)], websocketClients = [(ws1, host1)],
      subscriptions = [(ws1, S1)], dirs = [streams_dir, dir1], pending = []\<rparr>"

definition world4 :: world where
  "world4 =
     \<lparr>streams = [(S1, stream1)], ffmpegProcesses = [],
      websocketClients = [(ws1, host1), (ws2, viewer2)],
      subscriptions = [(ws1, S1), (ws2, S1)], dirs = [streams_dir, dir1], pending = []\<rparr>"

definition world5 :: world where
  "world5 =
     \<lparr>streams = [], ffmpegProcesses = [], websocketClients = [(ws1, host1)],
      subscriptions = [(ws1, S1)], dirs = [streams_dir], pending = []\<rparr>"

text \<open>\<open>world6\<close>: as \<open>world5\<close>, with the connection closed and forgotten.\<close>

definition world6 :: world where
  "world6 =
     \<lparr>streams = [], ffmpegProcesses = [], websocketClients = [],
      subscriptions = [], dirs = [streams_dir], pending = []\<rparr>"

definition env1 :: env where
  "env1 = \<lparr>now = 1000, ffmpeg = proc1\<rparr>"

text \<open>The clock read 500 ms before the last recorded activity of \<open>world3\<close>.\<close>

definition env_back :: env where
  "env_back = \<lparr>now = 1500, ffmpeg = proc1\<rparr>"

text \<open>The clock read 1000 ms after it.\<close>

definition env_later :: env where
  "env_later = \<lparr>now = 3000, ffmpeg = proc1\<rparr>"

definition cfg1 :: config where
  "cfg1 =
     \<lparr>unicode = latin1_rows, numbers = no_numbers, MAX_KEEP_ALIVE = 3600000,
      streamsDirectory = streams_dir\<rparr>"

text \<open>
  Messages: \<open>{stream, username, token}\<close> to subscribe, commands with the field \<open>stream\<close>,
  and the bare commands \<open>{type: "start"}\<close> and \<open>{type: "message", message: "hi"}\<close>.
\<close>

definition subscribe1 :: payload where
  "subscribe1 =
     \<lparr>data_stream = Some S1, data_username = Some (lit ''alice''), data_token = Some (JString T1),
      data_type = None, data_message = None\<rparr>"

definition subscribe_al :: payload where
  "subscribe_al =
     \<lparr>data_stream = Some S1, data_username = Some (lit ''al''), data_token = Some (JString T1),
      data_type = None, data_message = None\<rparr>"

text \<open>A second subscription, with no token; one whose username is three times U+00BD.\<close>

definition subscribe_bob :: payload where
  "subscribe_bob =
     \<lparr>data_stream = Some S1, data_username = Some (lit ''bob''), data_token = None,
      data_type = None, data_message = None\<rparr>"

definition subscribe_halves :: payload where
  "subscribe_halves =
     \<lparr>data_stream = Some S1, data_username = Some [0xBD, 0xBD, 0xBD],
      data_token = None, data_type = None, data_message = None\<rparr>"

definition start1 :: payload where
  "start1 =
     \<lparr>data_stream = Some S1, data_username = None, data_token = None,
      data_type = Some (lit ''start''), data_message = None\<rparr>"

definition start_bare :: payload where
  "start_bare =
     \<lparr>data_stream = None, data_username = None, data_token = None,
      data_type = Some (lit ''start''), data_message = None\<rparr>"

definition keepAlive1 :: payload where
  "keepAlive1 =
     \<lparr>data_stream = Some S1, data_username = None, data_token = None,
      data_type = Some (lit ''keepAlive''), data_message = None\<rparr>"

definition chat1 :: payload where
  "chat1 =
     \<lparr>data_stream = Some S1, data_username = None, data_token = None,
      data_type = Some (lit ''message''), data_message = Some (lit ''hi'')\<rparr>"

text \<open>A chat message whose body is the empty string.\<close>

definition chat_empty :: payload where
  "chat_empty =
     \<lparr>data_stream = Some S1, data_username = None, data_token = None,
      data_type = Some (lit ''message''), data_message = Some []\<rparr>"

definition chat_bare :: payload where
  "chat_bare =
     \<lparr>data_stream = None, data_username = None, data_token = None,
      data_type = Some (lit ''message''), data_message = Some (lit ''hi'')\<rparr>"


section \<open>Facts about generateRandomString\<close>

lemma charset_alnum: "list_all alnum62 charset"
  by (simp add: charset_def lit_def alnum62_def)

lemma charsetLength_62: "charsetLength = 62"
  by (simp add: charsetLength_def charset_def lit_def)

lemma pick_in_range:
  assumes "i < length bytes"
  shows "length (pick bytes i) = 1 \<and> list_all alnum62 (pick bytes i)"
proof -
  have "unat (bytes ! i) mod charsetLength < length charset"
    by (simp add: charsetLength_62 flip: charsetLength_def)
  then have "alnum62 (charset ! (unat (bytes ! i) mod charsetLength))"
    using charset_alnum by (simp add: list_all_length)
  with assms show ?thesis by (simp add: pick_def)
qed

lemma gen_loop_spec:
  assumes "len \<le> length bytes" and "i \<le> len"
  shows "length (gen_loop bytes len i auth) = length auth + (len - i)
       \<and> (list_all alnum62 auth \<longrightarrow> list_all alnum62 (gen_loop bytes len i auth))"
  using assms
proof (induction bytes len i auth rule: gen_loop.induct)
  case (1 bytes len i auth)
  show ?case
  proof (cases "i < len")
    case True
    then have "i < length bytes" using "1.prems" by simp
    from pick_in_range [OF this] "1.IH" [OF True] "1.prems" True
    show ?thesis by (subst (1 2) gen_loop.simps) auto
  next
    case False
    with "1.prems" show ?thesis by (subst (1 2) gen_loop.simps) simp
  qed
qed

section \<open>Facts about the handlers\<close>

lemmas sample_defs =
  S1_def T1_def streams_dir_def dir1_def stream1_def ws1_def ws2_def host1_def bob1_def
  viewer2_def proc1_def world1_def world2_def world3_def world4_def world5_def world6_def
  env1_def env_back_def env_later_def cfg1_def subscribe1_def subscribe_al_def
  subscribe_bob_def subscribe_halves_def start1_def start_bare_def keepAlive1_def chat1_def
  chat_empty_def chat_bare_def latin1_rows_def no_numbers_def

lemmas message_defs = message_def JSON_parse_def fields_of_def dispatch_def

lemma lit_types_differ:
  "lit ''start'' \<noteq> lit ''keepAlive''" "lit ''start'' \<noteq> lit ''message''"
  "lit ''keepAlive'' \<noteq> lit ''message''"
  by (simp_all add: lit_def)

text \<open>A text without a non-empty field \<open>stream\<close> is refused, whoever sends it.\<close>

lemma message_without_stream:
  "\<not> truthy (data_stream d) \<Longrightarrow>
   message U e c (Parsed d) w
     = (None, [Send c (Failure (data_type d) NoStreamSupplied), Close c], ws_close c w)"
  by (simp add: message_defs reject_def)

text \<open>A known connection whose stream is gone is told so and closed.\<close>

lemma message_stream_ended:
  "truthy (data_stream d) \<Longrightarrow> map_of (websocketClients w) c = Some cl \<Longrightarrow>
   map_of (streams w) (stream cl) = None \<Longrightarrow>
   message U e c (Parsed d) w
     = (None, [Send c (Failure (data_type d) (StreamEnded (data_stream d))), Close c],
        ws_close c w)"
  by (simp add: message_defs reject_def)

text \<open>A known connection whose stream is registered reaches the \<open>switch\<close>.\<close>

lemma message_known:
  "truthy (data_stream d) \<Longrightarrow> map_of (websocketClients w) c = Some cl \<Longrightarrow>
   map_of (streams w) (stream cl) = Some s \<Longrightarrow>
   message U e c (Parsed d) w = command e c d cl s w"
  by (simp add: message_defs)

lemma command_start:
  "data_type d = Some (lit ''start'') \<Longrightarrow>
   command e c d cl s w =
     (if state s = Started \<or> map_of (ffmpegProcesses w) (stream cl) \<noteq> None
      then (None, [Send c (Failure (data_type d) AlreadyStarted)], w)
      else if \<not> host cl then (None, [Send c (Failure (data_type d) NotHost)], w)
      else (None, [Spawn s (ffmpeg e), Send c (Success (data_type d) StreamStarted)],
            w\<lparr>dirs := mkdir (directory s) (dirs w),
              ffmpegProcesses := AList.update (sid s) (ffmpeg e) (ffmpegProcesses w),
              streams := AList.update (stream cl)
                 (s\<lparr>state := Started, keepAlive := now e\<rparr>) (streams w)\<rparr>))"
  by (simp add: command_def startStream_def touch_def)

lemma command_keepAlive:
  "data_type d = Some (lit ''keepAlive'') \<Longrightarrow>
   command e c d cl s w =
     (if state s \<noteq> Started \<or> map_of (ffmpegProcesses w) (stream cl) = None
      then (None, [Send c (Failure (data_type d) NotStartedYet)], w)
      else (None, [Send c (Success (data_type d) KeepAliveRegistered)],
            w\<lparr>streams := AList.update (stream cl) (s\<lparr>keepAlive := now e\<rparr>) (streams w)\<rparr>))"
  by (simp add: command_def touch_def lit_types_differ lit_types_differ [symmetric])

lemma command_chat:
  "data_type d = Some (lit ''message'') \<Longrightarrow>
   command e c d cl s w =
     (case data_message d of
        None \<Rightarrow> (None, [Send c (Failure (data_type d) NoMessage)], w)
      | Some body \<Rightarrow>
          if body = [] then (None, [Send c (Failure (data_type d) NoMessage)], w)
          else (None,
                [Publish (stream cl)
                   (Chat (data_type d) (username cl) (host cl) (country cl) body)],
                w\<lparr>streams := AList.update (stream cl) (s\<lparr>keepAlive := now e\<rparr>) (streams w)\<rparr>))"
  by (simp add: command_def touch_def lit_types_differ lit_types_differ [symmetric]
      split: option.splits)

text \<open>What a command may change: nothing but the entry of the sender's stream.\<close>

lemma command_frame:
  "command e c d cl s w = (err, effs, w') \<Longrightarrow>
   err = None \<and> websocketClients w' = websocketClients w \<and> subscriptions w' = subscriptions w
   \<and> pending w' = pending w \<and>
   (streams w' = streams w
    \<or> streams w' = AList.update (stream cl) (s\<lparr>keepAlive := now e\<rparr>) (streams w)
    \<or> streams w' = AList.update (stream cl)
         (s\<lparr>state := Started, keepAlive := now e\<rparr>) (streams w))"
  by (auto simp: command_def touch_def startStream_def split: if_splits option.splits)

lemma ws_close_frame:
  "streams (ws_close c w) = streams w \<and> ffmpegProcesses (ws_close c w) = ffmpegProcesses w
   \<and> dirs (ws_close c w) = dirs w \<and> pending (ws_close c w) = pending w"
  by (simp add: ws_close_def forget_def Let_def split: option.splits)

lemma ws_close_clients:
  "map_of (websocketClients (ws_close c0 w)) = (map_of (websocketClients w))(c0 := None)"
  by (auto simp: ws_close_def forget_def Let_def delete_conv' split: option.splits)

lemma forget_clients:
  "map_of (websocketClients (forget c0 w)) = (map_of (websocketClients w))(c0 := None)"
  by (auto simp: forget_def delete_conv' split: option.splits)

lemma forget_pending: "pending (forget c0 w) = pending w"
  by (simp add: forget_def split: option.splits)

text \<open>
  The first step of a subscription writes no entry: it refuses and closes, or it leaves
  one more suspended run, of the sender.
\<close>

lemma subscribe_frame:
  assumes "subscribe U c0 d w = (err, effs, w')"
  shows "streams w' = streams w
       \<and> (map_of (websocketClients w') = map_of (websocketClients w)
          \<or> map_of (websocketClients w') = (map_of (websocketClients w))(c0 := None))
       \<and> (pending w' = pending w \<or> (\<exists>p. pending w' = pending w @ [p] \<and> ws_of p = c0))"
  using assms
  by (auto simp: subscribe_def reject_def ws_close_frame ws_close_clients ws_subscribe_def
      Let_def split: option.splits if_splits)

text \<open>The registry after a message: unchanged, or the sender's stream touched.\<close>

lemma message_streams:
  assumes "message U e c m w = (err, effs, w')"
  shows "streams w' = streams w
    \<or> (\<exists>cl s. map_of (websocketClients w) c = Some cl
           \<and> map_of (streams w) (stream cl) = Some s
           \<and> (streams w' = AList.update (stream cl) (s\<lparr>keepAlive := now e\<rparr>) (streams w)
              \<or> streams w' = AList.update (stream cl)
                   (s\<lparr>state := Started, keepAlive := now e\<rparr>) (streams w)))"
proof (cases m)
  case Unparseable
  with assms show ?thesis by (simp add: message_defs)
next
  case ParsedNull
  with assms show ?thesis by (simp add: message_defs)
next
  case (Parsed d)
  show ?thesis
  proof (cases "truthy (data_stream d)")
    case False
    with assms Parsed show ?thesis by (auto simp: message_defs reject_def ws_close_frame)
  next
    case True
    show ?thesis
    proof (cases "map_of (websocketClients w) c")
      case None
      with assms Parsed True have "subscribe U c d w = (err, effs, w')"
        by (simp add: message_defs)
      from subscribe_frame [OF this] show ?thesis by simp
    next
      case known: (Some cl)
      show ?thesis
      proof (cases "map_of (streams w) (stream cl)")
        case None
        with assms Parsed True known show ?thesis
          by (auto simp: message_defs reject_def ws_close_frame)
      next
        case (Some s)
        with assms Parsed True known have "command e c d cl s w = (err, effs, w')"
          by (simp add: message_defs)
        from command_frame [OF this] Some known show ?thesis by auto
      qed
    qed
  qed
qed

text \<open>
  The table of clients after a message: an entry is kept as it is, or removed; and a
  message of a known connection suspends no run.
\<close>

lemma message_clients:
  assumes "message U e c0 m w = (err, effs, w')"
  shows "(map_of (websocketClients w') = map_of (websocketClients w)
          \<or> map_of (websocketClients w') = (map_of (websocketClients w))(c0 := None))
       \<and> (pending w' = pending w
          \<or> (map_of (websocketClients w) c0 = None
              \<and> (\<exists>p. pending w' = pending w @ [p] \<and> ws_of p = c0)))"
proof (cases m)
  case Unparseable
  with assms show ?thesis by (simp add: message_defs)
next
  case ParsedNull
  with assms show ?thesis by (simp add: message_defs)
next
  case (Parsed d)
  show ?thesis
  proof (cases "truthy (data_stream d)")
    case False
    with assms Parsed show ?thesis
      by (auto simp: message_defs reject_def ws_close_clients ws_close_frame)
  next
    case True
    show ?thesis
    proof (cases "map_of (websocketClients w) c0")
      case None
      with assms Parsed True have "subscribe U c0 d w = (err, effs, w')"
        by (simp add: message_defs)
      from subscribe_frame [OF this] None show ?thesis by simp
    next
      case known: (Some cl0)
      show ?thesis
      proof (cases "map_of (streams w) (stream cl0)")
        case None
        with assms Parsed True known show ?thesis
          by (auto simp: message_defs reject_def ws_close_clients ws_close_frame)
      next
        case (Some s)
        with assms Parsed True known have "command e c0 d cl0 s w = (err, effs, w')"
          by (simp add: message_defs)
        from command_frame [OF this] show ?thesis by simp
      qed
    qed
  qed
qed

text \<open>Every answer to a parsed message carries the \<open>type\<close> of that message.\<close>

lemma message_echoes_type:
  assumes "message U e c (Parsed d) w = (err, effs, w')"
      and "Send c' m \<in> set effs \<or> Publish t m \<in> set effs"
  shows "type_field m = data_type d"
proof (cases "truthy (data_stream d)")
  case False
  with assms show ?thesis by (auto simp: message_defs reject_def)
next
  case True
  show ?thesis
  proof (cases "map_of (websocketClients w) c")
    case None
    with assms True show ?thesis
      by (auto simp: message_defs subscribe_def reject_def Let_def
          split: option.splits if_splits)
  next
    case (Some cl)
    with assms True show ?thesis
      by (auto simp: message_defs command_def startStream_def reject_def
          split: option.splits if_splits)
  qed
qed

text \<open>So does the answer of the second step of a subscription.\<close>

lemma resume_echoes_type:
  assumes "resume N p answer w = (err, effs, w')" and "Send c' m \<in> set effs"
  shows "type_field m = data_type (data_of p) \<and> c' = ws_of p"
  using assms by (auto simp: resume_def split: lookup.splits sum.splits)

section \<open>Facts about the operator ==\<close>

text \<open>
  For a supplied string the comparison is equality of strings, and an absent token
  equals none; but the array that holds the token alone also compares equal to it.
\<close>

lemma loosely_equal_string:
  "loosely_equal N s (Some (JString t)) = Inr (s = t)" "loosely_equal N s None = Inr False"
  by (simp_all add: loosely_equal_def)

lemma loosely_equal_array_of_string: "loosely_equal N s (Some (JArray [JString s])) = Inr True"
  by (simp add: loosely_equal_def)

text \<open>
  The second step of a subscription writes the entry of its socket, with \<open>host\<close> the
  outcome of the comparison.
\<close>

lemma resume_sets_host:
  "loosely_equal N (streamToken p) (data_token (data_of p)) = Inr h \<Longrightarrow>
   resume N p (Country code) w
     = (None, [Send (ws_of p) (Success (data_type (data_of p)) (NowWatching (stream_of p)))],
        w\<lparr>websocketClients :=
             AList.update (ws_of p)
               \<lparr>username = username_of p, ip = data_ip (ws_of p), country = code,
                stream = stream_of p, host = h\<rparr>
               (websocketClients w)\<rparr>)"
  by (simp add: resume_def)

lemma resume_frame:
  assumes "resume N p answer w = (err, effs, w')"
  shows "pending w' = pending w \<and> streams w' = streams w
       \<and> (\<forall>c. c \<noteq> ws_of p \<longrightarrow> map_of (websocketClients w') c = map_of (websocketClients w) c)"
  using assms
  by (auto simp: resume_def update_conv' split: lookup.splits sum.splits)

section \<open>Facts about killStream and the sweeps\<close>

text \<open>
  With a process handle or \<open>undefined\<close> as its first argument, \<open>killStream\<close> finds
  nothing in either map: it removes the directory and nothing else.
\<close>

lemma killStream_not_a_string:
  "killStream (handle_or_undefined r) (Some p) w = (None, [], w\<lparr>dirs := rmdir p (dirs w)\<rparr>)"
  by (cases r)
    (simp_all add: killStream_def handle_or_undefined_def has_id_def get_id_def
      truthy_object_def rmdir_call_def)

lemma killStream_unknown_id:
  "map_of (ffmpegProcesses w) i = None \<Longrightarrow> map_of (streams w) i = None \<Longrightarrow>
   killStream (Str i) None w = (Some TypeError, [], w)"
  by (simp add: killStream_def has_id_def get_id_def truthy_def truthy_object_def
      rmdir_call_def)

lemma killStream_clients:
  "killStream k p w = (err, effs, w') \<Longrightarrow>
   websocketClients w' = websocketClients w \<and> pending w' = pending w"
  by (auto simp: killStream_def Let_def truthy_object_def rmdir_call_def
      split: option.splits if_splits sum.splits)

lemma reap_frame:
  "reap M t i s w = (err, effs, w') \<Longrightarrow>
   err = None \<and> streams w' = streams w \<and> ffmpegProcesses w' = ffmpegProcesses w
   \<and> websocketClients w' = websocketClients w \<and> pending w' = pending w"
  by (auto simp: reap_def killStream_not_a_string Let_def split: if_splits)

lemma reaper_loop_frame:
  "reaper_loop M t ids w = (err, effs, w') \<Longrightarrow>
   err = None \<and> streams w' = streams w \<and> ffmpegProcesses w' = ffmpegProcesses w
   \<and> websocketClients w' = websocketClients w \<and> pending w' = pending w"
proof (induction ids arbitrary: w err effs w')
  case Nil
  then show ?case by simp
next
  case (Cons i ids)
  show ?case
  proof (cases "map_of (streams w) i")
    case None
    with Cons show ?thesis by simp
  next
    case (Some s)
    obtain e1 f1 w1 where r: "reap M t i s w = (e1, f1, w1)"
      by (cases "reap M t i s w")
    from reap_frame [OF r] have e1: "e1 = None"
      and k: "streams w1 = streams w" "ffmpegProcesses w1 = ffmpegProcesses w"
        "websocketClients w1 = websocketClients w" "pending w1 = pending w"
      by simp_all
    obtain e2 f2 w2 where l: "reaper_loop M t ids w1 = (e2, f2, w2)"
      by (cases "reaper_loop M t ids w1")
    from Cons.IH [OF l] k Cons.prems Some r e1 l show ?thesis by simp
  qed
qed

text \<open>So the keep-alive sweep never removes a stream, nor a process.\<close>

lemma reaper_keeps_registry:
  "streams (snd (snd (reaper M t w))) = streams w
   \<and> ffmpegProcesses (snd (snd (reaper M t w))) = ffmpegProcesses w"
  using reaper_loop_frame [of M t "map fst (streams w)" w]
  by (cases "reaper M t w") (simp add: reaper_def)

lemma orphans_loop_clients:
  "orphans_loop dir0 ids w = (effs, w') \<Longrightarrow>
   websocketClients w' = websocketClients w \<and> pending w' = pending w"
proof (induction ids arbitrary: w effs w')
  case Nil
  then show ?case by simp
next
  case (Cons i ids)
  show ?case
  proof (cases "map_of (ffmpegProcesses w) i")
    case None
    with Cons show ?thesis by simp
  next
    case (Some p)
    obtain f1 w1 where r: "reconcile dir0 i p w = (f1, w1)"
      by (cases "reconcile dir0 i p w")
    then have k: "websocketClients w1 = websocketClients w \<and> pending w1 = pending w"
      by (auto simp: reconcile_def split: if_splits prod.splits dest: killStream_clients)
    obtain f2 w2 where l: "orphans_loop dir0 ids w1 = (f2, w2)"
      by (cases "orphans_loop dir0 ids w1")
    from Cons.IH [OF l] k Cons.prems Some r l show ?thesis by simp
  qed
qed

section \<open>Facts about runs\<close>

text \<open>
  Once the entry of a connection is written and no run of \<open>message\<close> is suspended for
  it, an event keeps the entry as it is or removes it, and suspends no such run unless it
  removes the entry.
\<close>

lemma step_clients:
  assumes "step cf ev w = (err, effs, w')"
      and "map_of (websocketClients w) c = Some cl"
      and "none_pending c w"
  shows "(map_of (websocketClients w') c = Some cl \<and> none_pending c w')
       \<or> map_of (websocketClients w') c = None"
proof (cases ev)
  case (Message e c0 m)
  with assms(1) have m: "message (unicode cf) e c0 m w = (err, effs, w')" by simp
  from message_clients [OF m] assms(2,3) show ?thesis
    by (auto simp: none_pending_def split: if_splits)
next
  case (Fetched k answer)
  show ?thesis
  proof (cases "k < length (pending w)")
    case False
    with assms Fetched show ?thesis by simp
  next
    case True
    let ?p = "pending w ! k"
    let ?w = "w\<lparr>pending := take k (pending w) @ drop (Suc k) (pending w)\<rparr>"
    from True assms(3) have ne: "c \<noteq> ws_of ?p"
      by (auto simp: none_pending_def list_all_length)
    from assms(3) have np: "none_pending c ?w"
      by (auto simp: none_pending_def list_all_iff dest: in_set_takeD in_set_dropD)
    from True assms(1) Fetched have r: "resume (numbers cf) ?p answer ?w = (err, effs, w')"
      by simp
    from resume_frame [OF r] ne np assms(2) show ?thesis
      by (simp add: none_pending_def)
  qed
next
  case (Opened c0)
  with assms show ?thesis
    by (auto simp: forget_clients forget_pending none_pending_def split: if_splits)
next
  case (Closed c0)
  with assms show ?thesis
    by (auto simp: ws_close_clients ws_close_frame none_pending_def split: if_splits)
next
  case (Reaper t)
  with assms reaper_loop_frame [of "MAX_KEEP_ALIVE cf" t "map fst (streams w)" w err effs w']
  show ?thesis by (simp add: reaper_def none_pending_def)
next
  case Orphans
  with assms show ?thesis
    by (auto simp: orphans_def none_pending_def split: prod.splits
        dest: orphans_loop_clients)
next
  case (Exited i dir0)
  with assms show ?thesis by (auto simp: ffmpeg_exited_def none_pending_def)
next
  case (Uploaded s)
  with assms show ?thesis by (auto simp: uploaded_def none_pending_def)
qed

text \<open>
  So through any events, for as long as the connection stays subscribed, its entry and
  the host flag in it stay as they are.
\<close>

lemma run_client_fixed:
  "subscribed_throughout cf c evs w \<Longrightarrow> map_of (websocketClients w) c = Some cl \<Longrightarrow>
   none_pending c w \<Longrightarrow> map_of (websocketClients (run cf evs w)) c = Some cl"
proof (induction evs arbitrary: w)
  case Nil
  then show ?case by simp
next
  case (Cons ev evs)
  obtain err effs w1 where st: "step cf ev w = (err, effs, w1)"
    by (cases "step cf ev w")
  with Cons.prems(1) have t: "subscribed_throughout cf c evs w1" by simp
  then have "map_of (websocketClients w1) c \<noteq> None" by (cases evs) simp_all
  with step_clients [OF st Cons.prems(2,3)]
  have "map_of (websocketClients w1) c = Some cl" "none_pending c w1" by auto
  from Cons.IH [OF t this] st show ?case by simp
qed

section \<open>Facts about the username check\<close>

lemma repeatToEnd_iff:
  "repeatToEnd X lo hi cs \<longleftrightarrow> lo \<le> length cs \<and> length cs \<le> hi \<and> list_all X cs"
proof (induction cs arbitrary: lo hi)
  case Nil
  show ?case by simp
next
  case (Cons c cs)
  show ?case by (cases hi; cases lo) (auto simp: Cons.IH)
qed

lemma RegexCheck_username_format:
  "RegexCheck_username U username0 = username_format_numbers U username0"
proof -
  have "usernameClass U = (\<lambda>c. isL U c \<or> isN U c \<or> c = of_char CHR '' ''
      \<or> c \<in> {of_char CHR ''.'', of_char CHR ''-'', of_char CHR ''_'', of_char CHR ''@''})"
    by (rule ext) (auto simp: usernameClass_def)
  then show ?thesis
    by (auto simp: RegexCheck_username_def username_format_numbers_def repeatToEnd_iff)
qed

lemma subscribe_rejects_iff:
  assumes "data_stream d = Some id0" and "id0 \<noteq> []" and "map_of (streams w) id0 = Some s"
      and "data_username d = Some username0"
  shows "(\<exists>why. subscribe U c d w = reject c d why w)
         \<longleftrightarrow> \<not> username_format_numbers U username0"
proof (cases "username0 = []")
  case True
  then have "\<not> username_format_numbers U username0"
    by (simp add: username_format_numbers_def)
  moreover from True assms have "subscribe U c d w = reject c d NoUsernameSupplied w"
    by (simp add: subscribe_def)
  ultimately show ?thesis by blast
next
  case False
  show ?thesis
  proof (cases "RegexCheck_username U username0")
    case True
    with False assms have "fst (snd (subscribe U c d w)) = []"
      by (simp add: subscribe_def Let_def)
    then have "\<not> (\<exists>why. subscribe U c d w = reject c d why w)"
      by (auto simp: reject_def)
    with True show ?thesis by (simp add: RegexCheck_username_format)
  next
    case no: False
    with False assms have "subscribe U c d w = reject c d InvalidUsername w"
      by (simp add: subscribe_def)
    with no show ?thesis by (auto simp: RegexCheck_username_format)
  qed
qed

text \<open>
  What \<open>codePoints\<close> gives: the code units themselves for a string without surrogates, and
  one code point for a lead surrogate followed by a trail surrogate.
\<close>

lemma codePoints_no_surrogates:
  "list_all (\<lambda>u. \<not> isLead u) cs \<Longrightarrow> codePoints cs = map unat cs"
  by (induction cs rule: codePoints.induct) simp_all

lemma codePoints_pair:
  "isLead u \<Longrightarrow> isTrail v \<Longrightarrow>
   codePoints (u # v # r) = (0x10000 + (unat u - 0xD800) * 0x400 + (unat v - 0xDC00)) # codePoints r"
  by simp

lemma codePoints_length: "length (codePoints cs) \<le> length cs"
  by (induction cs rule: codePoints.induct) auto

section \<open>The claims\<close>

subsection \<open>generateRandomString\<close>

text \<open>
  C9: for every length \<open>n\<close> and every outcome of the random source,
  \<open>generateRandomString(n)\<close> returns exactly \<open>n\<close> characters, each one of the 62 ASCII
  letters and digits; so the stream id (length 32) and the host token (length 16) of the
  upload handler have exactly those lengths and no other characters.
\<close>

theorem generateRandomString_length_alphabet:
  "length (generateRandomString rng n) = n
   \<and> (\<forall>c \<in> set (generateRandomString rng n). alnum62 c)
   \<and> length (generateRandomString rng 32) = 32
   \<and> length (generateRandomString rng 16) = 16"
proof -
  have g: "length (generateRandomString rng k) = k
           \<and> list_all alnum62 (generateRandomString rng k)" for k
    using gen_loop_spec [of k "randomBytes rng k" 0 "[]"]
    by (simp add: generateRandomString_def randomBytes_def)
  show ?thesis using g [of n] g [of 32] g [of 16] by (simp add: list_all_iff)
qed

theorem generateRandomString_length_alphabet_witness:
  "generateRandomString sample_rng 4 = lit ''H5th''
   \<and> length (generateRandomString sample_rng 4) = 4
   \<and> list_all alnum62 (generateRandomString sample_rng 4)"
proof -
  have "generateRandomString sample_rng 4 = lit ''H5th''"
    by (simp add: generateRandomString_def randomBytes_def gen_loop.simps pick_def
        charsetLength_62 charset_def lit_def upt_rec sample_rng_def)
  then show ?thesis
    using generateRandomString_length_alphabet [of sample_rng 4]
    by (simp add: list_all_iff)
qed

subsection \<open>getBestQuality\<close>

text \<open>
  C10: \<open>getBestQuality\<close> preserves orientation: a portrait source (\<open>width < height\<close>) gets a
  portrait target, which is a landscape tier with its sides swapped, any other source gets
  a landscape tier; the tier is one of 7680x4320, 3840x2160, 2560x1440, 1920x1080 and
  1280x720, and its pixel count does not exceed the configured maximum resolution, which is
  one of the values of the table \<open>resolutions\<close>.
\<close>

theorem getBestQuality_orientation_tier:
  "(w < h \<longrightarrow> width (getBestQuality m w h) < height (getBestQuality m w h)
             \<and> swapped (getBestQuality m w h) \<in> set tiers)
   \<and> (h \<le> w \<longrightarrow> height (getBestQuality m w h) \<le> width (getBestQuality m w h)
             \<and> getBestQuality m w h \<in> set tiers)
   \<and> (m \<in> snd ` set resolutions \<longrightarrow>
        width (getBestQuality m w h) * height (getBestQuality m w h) \<le> m)"
proof -
  have portrait: "w < h \<Longrightarrow> width (getBestQuality m w h) < height (getBestQuality m w h)
      \<and> swapped (getBestQuality m w h) \<in> set tiers"
    by (simp add: getBestQuality_def Let_def tiers_def swapped_def)
  have landscape: "h \<le> w \<Longrightarrow> height (getBestQuality m w h) \<le> width (getBestQuality m w h)
      \<and> getBestQuality m w h \<in> set tiers"
    by (simp add: getBestQuality_def Let_def tiers_def)
  have cap: "m \<in> snd ` set resolutions \<Longrightarrow>
      width (getBestQuality m w h) * height (getBestQuality m w h) \<le> m"
    by (auto simp: getBestQuality_def Let_def resolutions_def res_def)
  from portrait landscape cap show ?thesis by blast
qed

theorem getBestQuality_orientation_tier_witness:
  "(1080::int) < 1920
   \<and> getBestQuality (res ''1080p'') 1080 1920 = \<lparr>width = 1080, height = 1920\<rparr>
   \<and> swapped (getBestQuality (res ''1080p'') 1080 1920) \<in> set tiers
   \<and> (2160::int) \<le> 3840
   \<and> getBestQuality (res ''1080p'') 3840 2160 = \<lparr>width = 1920, height = 1080\<rparr>
   \<and> getBestQuality (res ''1080p'') 3840 2160 \<in> set tiers
   \<and> res ''1080p'' \<in> snd ` set resolutions
   \<and> width (getBestQuality (res ''1080p'') 3840 2160)
       * height (getBestQuality (res ''1080p'') 3840 2160) \<le> res ''1080p''"
proof -
  have m: "res ''1080p'' \<in> snd ` set resolutions"
    by (simp add: res_def resolutions_def)
  have p: "getBestQuality (res ''1080p'') 1080 1920 = \<lparr>width = 1080, height = 1920\<rparr>"
    by (simp add: getBestQuality_def res_def resolutions_def)
  have l: "getBestQuality (res ''1080p'') 3840 2160 = \<lparr>width = 1920, height = 1080\<rparr>"
    by (simp add: getBestQuality_def res_def resolutions_def)
  show ?thesis
    using m p l
      getBestQuality_orientation_tier [of 1080 1920 "res ''1080p''"]
      getBestQuality_orientation_tier [of 3840 2160 "res ''1080p''"]
    by simp
qed

subsection \<open>The keep-alive sweep\<close>

text \<open>
  C1: a reaper sweep over a session whose \<open>keepAlive\<close> is older than \<open>MAX_KEEP_ALIVE\<close>
  should remove it from the registry and delete its working directory, whatever the number
  of viewers. The sweep deletes the directory only. \<open>world1\<close> holds one stopped stream,
  idle since time 0, and nothing else; \<open>world3\<close> holds it started, with its transcoder and
  one viewer. After a sweep past the threshold both still hold the stream, and the
  transcoder of \<open>world3\<close> is neither killed nor forgotten.
\<close>

theorem reaper_leaves_expired_session_registered:
  "MAX_KEEP_ALIVE cfg1 < 3600001 - keepAlive stream1
   \<and> step cfg1 (Reaper 3600001) world1 = (None, [], world1\<lparr>dirs := [streams_dir]\<rparr>)
   \<and> map_of (streams (world1\<lparr>dirs := [streams_dir]\<rparr>)) S1 = Some stream1
   \<and> step cfg1 (Reaper 3700000) world3
       = (None, [Publish S1 (Info S1 Started 1)], world3\<lparr>dirs := [streams_dir]\<rparr>)
   \<and> map_of (ffmpegProcesses (world3\<lparr>dirs := [streams_dir]\<rparr>)) S1 = Some proc1"
  by (simp add: sample_defs reaper_def reap_def viewers_def killStream_not_a_string
      rmdir_def beneath_def lit_def)

subsection \<open>killStream\<close>

text \<open>
  C8: \<open>killStream(id)\<close> for an id with no process and no registry entry, and no path
  given, should pass and change nothing. It changes nothing, but it throws: the path is
  still \<open>null\<close> when \<open>rmdir\<close> is called.
\<close>

theorem killStream_unknown_id_throws:
  "map_of (ffmpegProcesses world1) (lit ''unknown'') = None
   \<and> map_of (streams world1) (lit ''unknown'') = None
   \<and> killStream (Str (lit ''unknown'')) None world1 = (Some TypeError, [], world1)"
  by (simp add: sample_defs killStream_def has_id_def get_id_def truthy_def lit_def
      truthy_object_def rmdir_call_def)

subsection \<open>The type echoed in answers\<close>

text \<open>
  C4: every answer should carry the \<open>type\<close> of the message it answers, also the answer to
  a text that is not JSON. For such a text, and for the JSON \<open>null\<close>, the handler throws
  before it sends anything.
\<close>

theorem message_unparseable_throws:
  "message U e c Unparseable w = (Some TypeError, [], w)
   \<and> message U e c ParsedNull w = (Some TypeError, [], w)"
  by (simp add: message_defs)

subsection \<open>The command start\<close>

text \<open>
  C2, as stated: for a subscribed connection a \<open>start\<close> command fails when the stream is
  started or has a process, or when the connection is not the host, and otherwise starts the
  stream. It fails on the code in two ways. For the command \<open>{type: "start"}\<close> the host of
  a stopped stream without a process is answered "No stream supplied!" and closed, and
  nothing is spawned. And when the stream of a subscribed host has left the registry (in
  \<open>world3\<close> its transcoder exits, which gives \<open>world5\<close>), there is no started state and no
  process, yet the command with the field \<open>stream\<close> is answered "Stream ... ended!" and the
  connection closed, and nothing is spawned.
\<close>

theorem start_without_stream_field_is_rejected:
  "map_of (websocketClients world2) ws1 = Some host1
   \<and> host host1
   \<and> map_of (streams world2) (stream host1) = Some stream1
   \<and> state stream1 = Stopped
   \<and> map_of (ffmpegProcesses world2) (stream host1) = None
   \<and> data_type start_bare = Some (lit ''start'')
   \<and> message latin1_rows env1 ws1 (Parsed start_bare) world2
       = (None, [Send ws1 (Failure (Some (lit ''start'')) NoStreamSupplied), Close ws1], world1)
   \<and> step cfg1 (Exited S1 dir1) world3 = (None, [], world5)
   \<and> map_of (websocketClients world5) ws1 = Some host1
   \<and> map_of (streams world5) (stream host1) = None
   \<and> map_of (ffmpegProcesses world5) (stream host1) = None
   \<and> data_type start1 = Some (lit ''start'')
   \<and> data_stream start1 = Some S1
   \<and> message latin1_rows env1 ws1 (Parsed start1) world5
       = (None, [Send ws1 (Failure (Some (lit ''start'')) (StreamEnded (Some S1))), Close ws1],
          world6)"
  by (simp add: sample_defs message_defs truthy_def reject_def ws_close_def forget_def
      ffmpeg_exited_def rmdir_def beneath_def lit_def)

text \<open>
  C2, amended: for every subscribed connection, a \<open>start\<close> command without a non-empty
  field \<open>stream\<close> is answered with the failure "No stream supplied!" and the connection is
  closed and forgotten, the registry and the process table staying as they are and nothing
  being spawned; one with a non-empty field \<open>stream\<close>, when the stream of the connection
  is no longer in the registry, is answered with the failure "Stream ... ended!" and the
  connection is closed and forgotten in the same way; one with a non-empty field
  \<open>stream\<close>, when the stream is in the registry, fails, with no change of state and nothing
  spawned, if the stream is started or has a process, and fails so if the connection is not
  the host; otherwise it spawns the transcoder, registers its handle under the id of the
  stream, sets the state to started and \<open>keepAlive\<close> to the current time, and answers with
  success.
\<close>

theorem start_command:
  assumes "map_of (websocketClients w) c = Some cl"
      and "data_type d = Some (lit ''start'')"
  shows "(\<not> truthy (data_stream d) \<longrightarrow>
            message U e c (Parsed d) w
              = (None, [Send c (Failure (data_type d) NoStreamSupplied), Close c], ws_close c w)
            \<and> map_of (websocketClients (ws_close c w)) c = None
            \<and> streams (ws_close c w) = streams w
            \<and> ffmpegProcesses (ws_close c w) = ffmpegProcesses w)
       \<and> (truthy (data_stream d) \<and> map_of (streams w) (stream cl) = None \<longrightarrow>
            message U e c (Parsed d) w
              = (None, [Send c (Failure (data_type d) (StreamEnded (data_stream d))), Close c],
                 ws_close c w)
            \<and> map_of (websocketClients (ws_close c w)) c = None
            \<and> streams (ws_close c w) = streams w
            \<and> ffmpegProcesses (ws_close c w) = ffmpegProcesses w)
       \<and> (truthy (data_stream d) \<and> map_of (streams w) (stream cl) = Some s \<longrightarrow>
            (state s = Started \<or> map_of (ffmpegProcesses w) (stream cl) \<noteq> None \<longrightarrow>
               message U e c (Parsed d) w
                 = (None, [Send c (Failure (data_type d) AlreadyStarted)], w))
          \<and> (\<not> host cl \<longrightarrow>
               (\<exists>why. message U e c (Parsed d) w
                        = (None, [Send c (Failure (data_type d) why)], w)))
          \<and> (state s \<noteq> Started \<and> map_of (ffmpegProcesses w) (stream cl) = None \<and> host cl \<longrightarrow>
               (\<exists>w'. message U e c (Parsed d) w
                       = (None,
                          [Spawn s (ffmpeg e), Send c (Success (data_type d) StreamStarted)], w')
                    \<and> map_of (streams w') (stream cl)
                        = Some (s\<lparr>state := Started, keepAlive := now e\<rparr>)
                    \<and> map_of (ffmpegProcesses w') (sid s) = Some (ffmpeg e)
                    \<and> websocketClients w' = websocketClients w)))"
proof -
  have closed: "map_of (websocketClients (ws_close c w)) c = None
      \<and> streams (ws_close c w) = streams w
      \<and> ffmpegProcesses (ws_close c w) = ffmpegProcesses w"
    by (simp add: ws_close_clients ws_close_frame)
  have a: "message U e c (Parsed d) w
        = (None, [Send c (Failure (data_type d) NoStreamSupplied), Close c], ws_close c w)"
    if "\<not> truthy (data_stream d)"
    using that by (rule message_without_stream)
  have b: "message U e c (Parsed d) w
        = (None, [Send c (Failure (data_type d) (StreamEnded (data_stream d))), Close c],
           ws_close c w)"
    if "truthy (data_stream d)" "map_of (streams w) (stream cl) = None"
    using that assms(1) by (simp add: message_stream_ended)
  have m: "message U e c (Parsed d) w = command e c d cl s w"
    if "truthy (data_stream d)" "map_of (streams w) (stream cl) = Some s"
    using that assms(1) by (simp add: message_known)
  have k: "(state s = Started \<or> map_of (ffmpegProcesses w) (stream cl) \<noteq> None \<longrightarrow>
               command e c d cl s w
                 = (None, [Send c (Failure (data_type d) AlreadyStarted)], w))
          \<and> (\<not> host cl \<longrightarrow>
               (\<exists>why. command e c d cl s w
                        = (None, [Send c (Failure (data_type d) why)], w)))
          \<and> (state s \<noteq> Started \<and> map_of (ffmpegProcesses w) (stream cl) = None \<and> host cl \<longrightarrow>
               (\<exists>w'. command e c d cl s w
                       = (None,
                          [Spawn s (ffmpeg e), Send c (Success (data_type d) StreamStarted)], w')
                    \<and> map_of (streams w') (stream cl)
                        = Some (s\<lparr>state := Started, keepAlive := now e\<rparr>)
                    \<and> map_of (ffmpegProcesses w') (sid s) = Some (ffmpeg e)
                    \<and> websocketClients w' = websocketClients w))"
    unfolding command_start [OF assms(2)]
    by (auto simp: update_conv')
  from closed a b m k show ?thesis by simp
qed

theorem start_command_witness:
  "map_of (websocketClients world2) ws1 = Some host1
   \<and> data_type start1 = Some (lit ''start'')
   \<and> truthy (data_stream start1)
   \<and> map_of (streams world2) (stream host1) = Some stream1
   \<and> state stream1 \<noteq> Started \<and> map_of (ffmpegProcesses world2) (stream host1) = None
   \<and> host host1
   \<and> (\<exists>w'. message latin1_rows env1 ws1 (Parsed start1) world2
              = (None,
                 [Spawn stream1 (ffmpeg env1),
                  Send ws1 (Success (data_type start1) StreamStarted)], w')
           \<and> map_of (streams w') (stream host1)
               = Some (stream1\<lparr>state := Started, keepAlive := now env1\<rparr>)
           \<and> map_of (ffmpegProcesses w') (sid stream1) = Some (ffmpeg env1)
           \<and> websocketClients w' = websocketClients world2)
   \<and> data_type start_bare = Some (lit ''start'')
   \<and> \<not> truthy (data_stream start_bare)
   \<and> message latin1_rows env1 ws1 (Parsed start_bare) world2
       = (None, [Send ws1 (Failure (data_type start_bare) NoStreamSupplied), Close ws1],
          ws_close ws1 world2)
   \<and> map_of (websocketClients (ws_close ws1 world2)) ws1 = None
   \<and> map_of (websocketClients world5) ws1 = Some host1
   \<and> map_of (streams world5) (stream host1) = None
   \<and> message latin1_rows env1 ws1 (Parsed start1) world5
       = (None, [Send ws1 (Failure (data_type start1) (StreamEnded (data_stream start1))),
                 Close ws1],
          ws_close ws1 world5)
   \<and> map_of (websocketClients world3) ws1 = Some host1
   \<and> map_of (streams world3) (stream host1)
       = Some (stream1\<lparr>state := Started, keepAlive := 2000\<rparr>)
   \<and> message latin1_rows env1 ws1 (Parsed start1) world3
       = (None, [Send ws1 (Failure (data_type start1) AlreadyStarted)], world3)
   \<and> map_of (websocketClients world4) ws2 = Some viewer2
   \<and> map_of (streams world4) (stream viewer2) = Some stream1
   \<and> \<not> host viewer2
   \<and> (\<exists>why. message latin1_rows env1 ws2 (Parsed start1) world4
               = (None, [Send ws2 (Failure (data_type start1) why)], world4))"
proof -
  have t: "data_type start1 = Some (lit ''start'')" "truthy (data_stream start1)"
      "data_type start_bare = Some (lit ''start'')" "\<not> truthy (data_stream start_bare)"
    by (simp_all add: sample_defs truthy_def lit_def)
  have c2: "map_of (websocketClients world2) ws1 = Some host1"
      "map_of (streams world2) (stream host1) = Some stream1"
      "state stream1 \<noteq> Started" "map_of (ffmpegProcesses world2) (stream host1) = None"
      "host host1"
    by (simp_all add: sample_defs)
  have c5: "map_of (websocketClients world5) ws1 = Some host1"
      "map_of (streams world5) (stream host1) = None"
    by (simp_all add: sample_defs)
  have c3: "map_of (websocketClients world3) ws1 = Some host1"
      "map_of (streams world3) (stream host1)
         = Some (stream1\<lparr>state := Started, keepAlive := 2000\<rparr>)"
      "state (stream1\<lparr>state := Started, keepAlive := 2000\<rparr>) = Started"
    by (simp_all add: sample_defs)
  have c4: "map_of (websocketClients world4) ws2 = Some viewer2"
      "map_of (streams world4) (stream viewer2) = Some stream1"
      "\<not> host viewer2"
    by (simp_all add: sample_defs)
  note i1 = start_command [OF c2(1) t(1), of latin1_rows env1 stream1]
  note i2 = start_command [OF c2(1) t(3), of latin1_rows env1 stream1]
  note i3 = start_command [OF c5(1) t(1), of latin1_rows env1 stream1]
  note i4 = start_command [OF c3(1) t(1), of latin1_rows env1
      "stream1\<lparr>state := Started, keepAlive := 2000\<rparr>"]
  note i5 = start_command [OF c4(1) t(1), of latin1_rows env1 stream1]
  have r1: "\<exists>w'. message latin1_rows env1 ws1 (Parsed start1) world2
              = (None,
                 [Spawn stream1 (ffmpeg env1),
                  Send ws1 (Success (data_type start1) StreamStarted)], w')
           \<and> map_of (streams w') (stream host1)
               = Some (stream1\<lparr>state := Started, keepAlive := now env1\<rparr>)
           \<and> map_of (ffmpegProcesses w') (sid stream1) = Some (ffmpeg env1)
           \<and> websocketClients w' = websocketClients world2"
    using i1 t(2) c2 by blast
  have r2: "message latin1_rows env1 ws1 (Parsed start_bare) world2
       = (None, [Send ws1 (Failure (data_type start_bare) NoStreamSupplied), Close ws1],
          ws_close ws1 world2)
      \<and> map_of (websocketClients (ws_close ws1 world2)) ws1 = None"
    using i2 t(4) by blast
  have r3: "message latin1_rows env1 ws1 (Parsed start1) world5
       = (None, [Send ws1 (Failure (data_type start1) (StreamEnded (data_stream start1))),
                 Close ws1],
          ws_close ws1 world5)"
    using i3 t(2) c5(2) by blast
  have r4: "message latin1_rows env1 ws1 (Parsed start1) world3
       = (None, [Send ws1 (Failure (data_type start1) AlreadyStarted)], world3)"
    using i4 t(2) c3(2,3) by blast
  have r5: "\<exists>why. message latin1_rows env1 ws2 (Parsed start1) world4
               = (None, [Send ws2 (Failure (data_type start1) why)], world4)"
    using i5 t(2) c4(2,3) by blast
  from t c2 c5 c3(1,2) c4 r1 r2 r3 r4 r5 show ?thesis by blast
qed

subsection \<open>The host flag\<close>

text \<open>
  C3: the host flag of a connection should be assigned once, when it subscribes, to the
  equality of the token it supplied with the token of the stream, and never change
  afterwards. The entry is written only after \<open>await fetch(...)\<close>, and until then a second
  text on the same socket finds \<open>websocketClients.has(ws)\<close> false and enters the
  subscription branch again. In \<open>world1\<close> the socket \<open>ws1\<close> sends the subscription of alice
  with the token of the stream and then, before the country lookup has answered, a
  subscription of bob with no token. When the first lookup answers, the entry is written
  with \<open>host\<close> true; when the second answers, it is written again, with \<open>host\<close> false:
  the flag is assigned twice, and after the second time it is false although the token
  supplied at the first subscription was the token of the stream.
\<close>

theorem second_subscription_rewrites_host:
  "map_of (websocketClients world1) ws1 = None
   \<and> map_of (streams world1) S1 = Some stream1
   \<and> data_token subscribe1 = Some (JString (token stream1))
   \<and> step cfg1 (Message env1 ws1 (Parsed subscribe1)) world1
       = (None, [],
          world1\<lparr>subscriptions := [(ws1, S1)],
                 pending := [\<lparr>ws_of = ws1, data_of = subscribe1, username_of = lit ''alice'',
                              stream_of = S1, streamToken = T1\<rparr>]\<rparr>)
   \<and> step cfg1 (Message env1 ws1 (Parsed subscribe_bob))
        (world1\<lparr>subscriptions := [(ws1, S1)],
                pending := [\<lparr>ws_of = ws1, data_of = subscribe1, username_of = lit ''alice'',
                             stream_of = S1, streamToken = T1\<rparr>]\<rparr>)
       = (None, [],
          world1\<lparr>subscriptions := [(ws1, S1)],
                 pending := [\<lparr>ws_of = ws1, data_of = subscribe1, username_of = lit ''alice'',
                              stream_of = S1, streamToken = T1\<rparr>,
                             \<lparr>ws_of = ws1, data_of = subscribe_bob, username_of = lit ''bob'',
                              stream_of = S1, streamToken = T1\<rparr>]\<rparr>)
   \<and> step cfg1 (Fetched 0 (Country (Some (lit ''FR''))))
        (world1\<lparr>subscriptions := [(ws1, S1)],
                pending := [\<lparr>ws_of = ws1, data_of = subscribe1, username_of = lit ''alice'',
                             stream_of = S1, streamToken = T1\<rparr>,
                            \<lparr>ws_of = ws1, data_of = subscribe_bob, username_of = lit ''bob'',
                             stream_of = S1, streamToken = T1\<rparr>]\<rparr>)
       = (None, [Send ws1 (Success None (NowWatching S1))],
          world2\<lparr>pending := [\<lparr>ws_of = ws1, data_of = subscribe_bob, username_of = lit ''bob'',
                              stream_of = S1, streamToken = T1\<rparr>]\<rparr>)
   \<and> map_of (websocketClients
        (world2\<lparr>pending := [\<lparr>ws_of = ws1, data_of = subscribe_bob, username_of = lit ''bob'',
                             stream_of = S1, streamToken = T1\<rparr>]\<rparr>)) ws1 = Some host1
   \<and> host host1
   \<and> step cfg1 (Fetched 0 (Country (Some (lit ''FR''))))
        (world2\<lparr>pending := [\<lparr>ws_of = ws1, data_of = subscribe_bob, username_of = lit ''bob'',
                             stream_of = S1, streamToken = T1\<rparr>]\<rparr>)
       = (None, [Send ws1 (Success None (NowWatching S1))],
          world2\<lparr>websocketClients := [(ws1, bob1)]\<rparr>)
   \<and> map_of (websocketClients (world2\<lparr>websocketClients := [(ws1, bob1)]\<rparr>)) ws1 = Some bob1
   \<and> \<not> host bob1
   \<and> run cfg1
        [Message env1 ws1 (Parsed subscribe1), Message env1 ws1 (Parsed subscribe_bob),
         Fetched 0 (Country (Some (lit ''FR''))), Fetched 0 (Country (Some (lit ''FR'')))]
        world1
       = world2\<lparr>websocketClients := [(ws1, bob1)]\<rparr>"
proof -
  have u: "RegexCheck_username latin1_rows (lit ''alice'')"
      "RegexCheck_username latin1_rows (lit ''bob'')"
    by (simp_all add: RegexCheck_username_def usernameClass_def latin1_rows_def
        latin1_letter_def lit_def isLead_def isTrail_def)
  have a: "map_of (websocketClients world1) ws1 = None"
      "map_of (streams world1) S1 = Some stream1"
      "data_token subscribe1 = Some (JString (token stream1))"
    by (simp_all add: sample_defs)
  have s1: "step cfg1 (Message env1 ws1 (Parsed subscribe1)) world1
       = (None, [],
          world1\<lparr>subscriptions := [(ws1, S1)],
                 pending := [\<lparr>ws_of = ws1, data_of = subscribe1, username_of = lit ''alice'',
                              stream_of = S1, streamToken = T1\<rparr>]\<rparr>)"
    using u(1)
    by (simp add: cfg1_def message_defs truthy_def subscribe_def ws_subscribe_def
        world1_def subscribe1_def stream1_def S1_def lit_def)
  have s2: "step cfg1 (Message env1 ws1 (Parsed subscribe_bob))
        (world1\<lparr>subscriptions := [(ws1, S1)],
                pending := [\<lparr>ws_of = ws1, data_of = subscribe1, username_of = lit ''alice'',
                             stream_of = S1, streamToken = T1\<rparr>]\<rparr>)
       = (None, [],
          world1\<lparr>subscriptions := [(ws1, S1)],
                 pending := [\<lparr>ws_of = ws1, data_of = subscribe1, username_of = lit ''alice'',
                              stream_of = S1, streamToken = T1\<rparr>,
                             \<lparr>ws_of = ws1, data_of = subscribe_bob, username_of = lit ''bob'',
                              stream_of = S1, streamToken = T1\<rparr>]\<rparr>)"
    using u(2)
    by (simp add: cfg1_def message_defs truthy_def subscribe_def ws_subscribe_def
        world1_def subscribe_bob_def stream1_def S1_def lit_def)
  have s3: "step cfg1 (Fetched 0 (Country (Some (lit ''FR''))))
        (world1\<lparr>subscriptions := [(ws1, S1)],
                pending := [\<lparr>ws_of = ws1, data_of = subscribe1, username_of = lit ''alice'',
                             stream_of = S1, streamToken = T1\<rparr>,
                            \<lparr>ws_of = ws1, data_of = subscribe_bob, username_of = lit ''bob'',
                             stream_of = S1, streamToken = T1\<rparr>]\<rparr>)
       = (None, [Send ws1 (Success None (NowWatching S1))],
          world2\<lparr>pending := [\<lparr>ws_of = ws1, data_of = subscribe_bob, username_of = lit ''bob'',
                              stream_of = S1, streamToken = T1\<rparr>]\<rparr>)"
    by (simp add: resume_def loosely_equal_def world1_def world2_def subscribe1_def
        host1_def ws1_def)
  have s4: "step cfg1 (Fetched 0 (Country (Some (lit ''FR''))))
        (world2\<lparr>pending := [\<lparr>ws_of = ws1, data_of = subscribe_bob, username_of = lit ''bob'',
                             stream_of = S1, streamToken = T1\<rparr>]\<rparr>)
       = (None, [Send ws1 (Success None (NowWatching S1))],
          world2\<lparr>websocketClients := [(ws1, bob1)]\<rparr>)"
    by (simp add: resume_def loosely_equal_def world2_def subscribe_bob_def
        bob1_def ws1_def)
  have h: "map_of (websocketClients
        (world2\<lparr>pending := [\<lparr>ws_of = ws1, data_of = subscribe_bob, username_of = lit ''bob'',
                             stream_of = S1, streamToken = T1\<rparr>]\<rparr>)) ws1 = Some host1"
      "host host1"
      "map_of (websocketClients (world2\<lparr>websocketClients := [(ws1, bob1)]\<rparr>)) ws1 = Some bob1"
      "\<not> host bob1"
    by (simp_all add: world2_def host1_def bob1_def)
  have r: "run cfg1
        [Message env1 ws1 (Parsed subscribe1), Message env1 ws1 (Parsed subscribe_bob),
         Fetched 0 (Country (Some (lit ''FR''))), Fetched 0 (Country (Some (lit ''FR'')))]
        world1
       = world2\<lparr>websocketClients := [(ws1, bob1)]\<rparr>"
    by (simp only: run.simps s1 s2 s3 s4 prod.case)
  from a s1 s2 s3 s4 h r show ?thesis by blast
qed

subsection \<open>The username check\<close>

text \<open>
  C5, as stated: a subscription is rejected exactly when the username is not made of
  Unicode letters, Unicode digits, spaces and the characters \<open>.\<close>, \<open>-\<close>, \<open>_\<close>, \<open>@\<close> only,
  with a length from 3 to 20. The class \<open>\p{N}\<close> of the check holds every Unicode number,
  not only the digits. U+00BD (the fraction one half) is a number and not a digit: the
  username made of three of them has not the format of the claim, yet the check accepts
  it and the subscription goes through, with a success answer once the country lookup has
  answered. The length of the format is that of the string in code points, not in code
  units: of the letter U+1D400, which is two code units, two in a row are refused and
  eleven in a row are accepted.
\<close>

theorem username_of_fractions_is_accepted:
  "isN latin1_rows 0xBD
   \<and> \<not> isNd latin1_rows 0xBD
   \<and> \<not> isL latin1_rows 0xBD
   \<and> codePoints [0xBD, 0xBD, 0xBD] = [0xBD, 0xBD, 0xBD]
   \<and> \<not> username_format_digits latin1_rows [0xBD, 0xBD, 0xBD]
   \<and> RegexCheck_username latin1_rows [0xBD, 0xBD, 0xBD]
   \<and> map_of (websocketClients world1) ws1 = None
   \<and> map_of (streams world1) S1 = Some stream1
   \<and> data_stream subscribe_halves = Some S1
   \<and> data_username subscribe_halves = Some [0xBD, 0xBD, 0xBD]
   \<and> message latin1_rows env1 ws1 (Parsed subscribe_halves) world1
       = (None, [],
          world1\<lparr>subscriptions := [(ws1, S1)],
                 pending := [\<lparr>ws_of = ws1, data_of = subscribe_halves,
                              username_of = [0xBD, 0xBD, 0xBD], stream_of = S1,
                              streamToken = T1\<rparr>]\<rparr>)
   \<and> step cfg1 (Fetched 0 (Country None))
        (world1\<lparr>subscriptions := [(ws1, S1)],
                pending := [\<lparr>ws_of = ws1, data_of = subscribe_halves,
                             username_of = [0xBD, 0xBD, 0xBD], stream_of = S1,
                             streamToken = T1\<rparr>]\<rparr>)
       = (None, [Send ws1 (Success None (NowWatching S1))],
          world1\<lparr>subscriptions := [(ws1, S1)],
                 websocketClients :=
                   [(ws1, \<lparr>username = [0xBD, 0xBD, 0xBD], ip = lit ''203.0.113.7'',
                           country = None, stream = S1, host = False\<rparr>)]\<rparr>)
   \<and> isL bold_rows 0x1D400
   \<and> length bold2 = 4 \<and> codePoints bold2 = [0x1D400, 0x1D400]
   \<and> \<not> RegexCheck_username bold_rows bold2
   \<and> length bold11 = 22 \<and> length (codePoints bold11) = 11
   \<and> RegexCheck_username bold_rows bold11"
proof -
  have t: "isN latin1_rows 0xBD" "\<not> isNd latin1_rows 0xBD" "\<not> isL latin1_rows 0xBD"
    by (simp_all add: latin1_rows_def latin1_number_def latin1_digit_def latin1_letter_def)
  have cp: "codePoints [0xBD, 0xBD, 0xBD] = [0xBD, 0xBD, 0xBD]"
    by (simp add: isLead_def isTrail_def)
  have f: "\<not> username_format_digits latin1_rows [0xBD, 0xBD, 0xBD]"
    unfolding username_format_digits_def cp
    by (simp add: latin1_rows_def latin1_digit_def latin1_letter_def)
  have r: "RegexCheck_username latin1_rows [0xBD, 0xBD, 0xBD]"
    unfolding RegexCheck_username_def cp
    by (simp add: usernameClass_def latin1_rows_def latin1_number_def)
  have a: "map_of (websocketClients world1) ws1 = None"
      "map_of (streams world1) S1 = Some stream1"
      "data_stream subscribe_halves = Some S1"
      "data_username subscribe_halves = Some [0xBD, 0xBD, 0xBD]"
    by (simp_all add: sample_defs)
  have m: "message latin1_rows env1 ws1 (Parsed subscribe_halves) world1
       = (None, [],
          world1\<lparr>subscriptions := [(ws1, S1)],
                 pending := [\<lparr>ws_of = ws1, data_of = subscribe_halves,
                              username_of = [0xBD, 0xBD, 0xBD], stream_of = S1,
                              streamToken = T1\<rparr>]\<rparr>)"
    using r
    by (simp add: message_defs truthy_def subscribe_def ws_subscribe_def
        world1_def subscribe_halves_def stream1_def S1_def lit_def)
  have s: "step cfg1 (Fetched 0 (Country None))
        (world1\<lparr>subscriptions := [(ws1, S1)],
                pending := [\<lparr>ws_of = ws1, data_of = subscribe_halves,
                             username_of = [0xBD, 0xBD, 0xBD], stream_of = S1,
                             streamToken = T1\<rparr>]\<rparr>)
       = (None, [Send ws1 (Success None (NowWatching S1))],
          world1\<lparr>subscriptions := [(ws1, S1)],
                 websocketClients :=
                   [(ws1, \<lparr>username = [0xBD, 0xBD, 0xBD], ip = lit ''203.0.113.7'',
                           country = None, stream = S1, host = False\<rparr>)]\<rparr>)"
    by (simp add: resume_def loosely_equal_def world1_def subscribe_halves_def ws1_def)
  have b: "isL bold_rows 0x1D400"
    by (simp add: bold_rows_def bold_letter_def)
  have cb: "codePoints bold2 = [0x1D400, 0x1D400]"
      "codePoints bold11
        = [0x1D400, 0x1D400, 0x1D400, 0x1D400, 0x1D400, 0x1D400, 0x1D400, 0x1D400, 0x1D400,
           0x1D400, 0x1D400]"
    by (simp_all add: bold11_def bold2_def bold_A_def isLead_def isTrail_def)
  have l: "length bold2 = 4" "length bold11 = 22" "length (codePoints bold11) = 11"
    unfolding cb by (simp_all add: bold11_def bold2_def bold_A_def)
  have g: "\<not> RegexCheck_username bold_rows bold2" "RegexCheck_username bold_rows bold11"
    unfolding RegexCheck_username_def cb
    by (simp_all add: usernameClass_def bold_rows_def bold_letter_def)
  from t cp f r a m s b cb(1) l g show ?thesis by blast
qed

text \<open>
  C5, amended: for every string supplied as username, the check accepts it exactly when
  it has the format: only Unicode letters, Unicode numbers (the general category N, which
  holds the digits and other numbers as well), spaces and the characters \<open>.\<close>, \<open>-\<close>,
  \<open>_\<close>, \<open>@\<close>, with a length, counted in code points, of at least 3 and at most 20; and a
  subscription to a registered stream is rejected, with a failure answer and the
  connection closed, exactly when the username has not that format.
\<close>

theorem username_format_decides_subscription:
  "RegexCheck_username U username0 = username_format_numbers U username0
   \<and> (map_of (websocketClients w) c = None \<and> data_stream d = Some id0 \<and> id0 \<noteq> []
        \<and> map_of (streams w) id0 = Some s \<and> data_username d = Some username0 \<longrightarrow>
       ((\<exists>why. message U e c (Parsed d) w = reject c d why w)
          \<longleftrightarrow> \<not> username_format_numbers U username0))"
proof -
  have "(\<exists>why. message U e c (Parsed d) w = reject c d why w)
          \<longleftrightarrow> \<not> username_format_numbers U username0"
    if h: "map_of (websocketClients w) c = None" "data_stream d = Some id0" "id0 \<noteq> []"
      "map_of (streams w) id0 = Some s" "data_username d = Some username0"
  proof -
    from h have "message U e c (Parsed d) w = subscribe U c d w"
      by (simp add: message_defs truthy_def)
    with subscribe_rejects_iff [OF h(2-5)] show ?thesis by simp
  qed
  with RegexCheck_username_format show ?thesis by blast
qed

theorem username_format_decides_subscription_witness:
  "map_of (websocketClients world1) ws1 = None
   \<and> data_stream subscribe_al = Some S1 \<and> S1 \<noteq> []
   \<and> map_of (streams world1) S1 = Some stream1
   \<and> data_username subscribe_al = Some (lit ''al'')
   \<and> \<not> username_format_numbers latin1_rows (lit ''al'')
   \<and> \<not> RegexCheck_username latin1_rows (lit ''al'')
   \<and> (\<exists>why. message latin1_rows env1 ws1 (Parsed subscribe_al) world1
               = reject ws1 subscribe_al why world1)
   \<and> data_stream subscribe1 = Some S1
   \<and> data_username subscribe1 = Some (lit ''alice'')
   \<and> username_format_numbers latin1_rows (lit ''alice'')
   \<and> RegexCheck_username latin1_rows (lit ''alice'')
   \<and> \<not> (\<exists>why. message latin1_rows env1 ws1 (Parsed subscribe1) world1
               = reject ws1 subscribe1 why world1)
   \<and> length bold2 = 4 \<and> codePoints bold2 = [0x1D400, 0x1D400]
   \<and> \<not> username_format_numbers bold_rows bold2
   \<and> \<not> RegexCheck_username bold_rows bold2
   \<and> length bold11 = 22 \<and> length (codePoints bold11) = 11
   \<and> username_format_numbers bold_rows bold11
   \<and> RegexCheck_username bold_rows bold11"
proof -
  have h: "map_of (websocketClients world1) ws1 = None"
      "data_stream subscribe_al = Some S1" "S1 \<noteq> []"
      "map_of (streams world1) S1 = Some stream1"
      "data_username subscribe_al = Some (lit ''al'')"
      "data_stream subscribe1 = Some S1"
      "data_username subscribe1 = Some (lit ''alice'')"
    by (simp_all add: sample_defs lit_def)
  have f: "\<not> username_format_numbers latin1_rows (lit ''al'')"
      "username_format_numbers latin1_rows (lit ''alice'')"
    by (simp_all add: username_format_numbers_def lit_def isLead_def isTrail_def
        latin1_rows_def latin1_letter_def)
  have cp: "codePoints bold2 = [0x1D400, 0x1D400]"
      "codePoints bold11
        = [0x1D400, 0x1D400, 0x1D400, 0x1D400, 0x1D400, 0x1D400, 0x1D400, 0x1D400, 0x1D400,
           0x1D400, 0x1D400]"
    by (simp_all add: bold11_def bold2_def bold_A_def isLead_def isTrail_def)
  have l: "length bold2 = 4" "length bold11 = 22" "length (codePoints bold11) = 11"
    unfolding cp by (simp_all add: bold11_def bold2_def bold_A_def)
  have g: "\<not> username_format_numbers bold_rows bold2"
      "username_format_numbers bold_rows bold11"
    unfolding username_format_numbers_def cp
    by (simp_all add: bold_rows_def bold_letter_def)
  note i1 = username_format_decides_subscription
    [of latin1_rows "lit ''al''" world1 ws1 subscribe_al S1 stream1 env1]
  note i2 = username_format_decides_subscription
    [of latin1_rows "lit ''alice''" world1 ws1 subscribe1 S1 stream1 env1]
  note i3 = username_format_decides_subscription
    [of bold_rows bold2 world1 ws1 subscribe1 S1 stream1 env1]
  note i4 = username_format_decides_subscription
    [of bold_rows bold11 world1 ws1 subscribe1 S1 stream1 env1]
  have r1: "\<not> RegexCheck_username latin1_rows (lit ''al'')"
      "\<exists>why. message latin1_rows env1 ws1 (Parsed subscribe_al) world1
               = reject ws1 subscribe_al why world1"
    using i1 h f(1) by blast+
  have r2: "RegexCheck_username latin1_rows (lit ''alice'')"
      "\<not> (\<exists>why. message latin1_rows env1 ws1 (Parsed subscribe1) world1
               = reject ws1 subscribe1 why world1)"
    using i2 h f(2) by blast+
  have r3: "\<not> RegexCheck_username bold_rows bold2" "RegexCheck_username bold_rows bold11"
    using i3 i4 g by blast+
  from h f cp(1) l g r1 r2 r3 show ?thesis by blast
qed

subsection \<open>keepAlive over time\<close>

text \<open>
  C6, as stated: no operation that touches \<open>keepAlive\<close> (the commands \<open>keepAlive\<close>,
  \<open>message\<close>, \<open>start\<close>) lets it decrease. The code stores the reading of the wall clock
  as it is; in \<open>world3\<close> the last activity is at 2000, and a \<open>keepAlive\<close> command handled
  with the clock at 1500 leaves 1500.
\<close>

theorem keepAlive_decreases_when_clock_reads_earlier:
  "map_of (streams world3) S1 = Some (stream1\<lparr>state := Started, keepAlive := 2000\<rparr>)
   \<and> now env_back = 1500
   \<and> message latin1_rows env_back ws1 (Parsed keepAlive1) world3
       = (None, [Send ws1 (Success (Some (lit ''keepAlive'')) KeepAliveRegistered)],
          world3\<lparr>streams := [(S1, stream1\<lparr>state := Started, keepAlive := 1500\<rparr>)]\<rparr>)
   \<and> keepAlive (stream1\<lparr>state := Started, keepAlive := 1500\<rparr>)
       < keepAlive (stream1\<lparr>state := Started, keepAlive := 2000\<rparr>)"
  by (simp add: sample_defs message_defs truthy_def command_def touch_def lit_def)

text \<open>
  C6, amended: for every stream and every operation that touches its \<open>keepAlive\<close> (for a
  connection subscribed to it that sends a non-empty field \<open>stream\<close>: the command
  \<open>keepAlive\<close> when the stream is started and has a process, the command \<open>message\<close> with
  a non-empty body, the command \<open>start\<close> of the host when the stream is not started and
  has no process), the value of \<open>keepAlive\<close> after the operation is the reading of
  \<open>Date.now()\<close> taken by the operation. And for every message whatever and every stream
  in the registry, the stream is in the registry afterwards and its \<open>keepAlive\<close> is the
  value before or that reading: it is greater than or equal to the value before, provided
  that the reading is not earlier than the value before (the wall clock did not step
  back).
\<close>

theorem keepAlive_after_message:
  "(map_of (websocketClients w) c = Some cl \<and> map_of (streams w) (stream cl) = Some s
      \<and> truthy (data_stream d)
      \<and> ((data_type d = Some (lit ''keepAlive'') \<and> state s = Started
            \<and> map_of (ffmpegProcesses w) (stream cl) \<noteq> None)
          \<or> (data_type d = Some (lit ''message'') \<and> truthy (data_message d))
          \<or> (data_type d = Some (lit ''start'') \<and> state s \<noteq> Started
               \<and> map_of (ffmpegProcesses w) (stream cl) = None \<and> host cl)) \<longrightarrow>
      (\<exists>effs w' s'. message U e c (Parsed d) w = (None, effs, w')
          \<and> map_of (streams w') (stream cl) = Some s'
          \<and> keepAlive s' = now e))
   \<and> (message U e c m w = (err, effs0, w0) \<and> map_of (streams w) i = Some s0 \<longrightarrow>
      (\<exists>s'. map_of (streams w0) i = Some s'
          \<and> (keepAlive s' = keepAlive s0 \<or> keepAlive s' = now e)
          \<and> (keepAlive s0 \<le> now e \<longrightarrow> keepAlive s0 \<le> keepAlive s')))"
proof -
  have pin: "\<exists>effs w' s'. message U e c (Parsed d) w = (None, effs, w')
          \<and> map_of (streams w') (stream cl) = Some s'
          \<and> keepAlive s' = now e"
    if k: "map_of (websocketClients w) c = Some cl" "map_of (streams w) (stream cl) = Some s"
        "truthy (data_stream d)"
      and t: "(data_type d = Some (lit ''keepAlive'') \<and> state s = Started
            \<and> map_of (ffmpegProcesses w) (stream cl) \<noteq> None)
          \<or> (data_type d = Some (lit ''message'') \<and> truthy (data_message d))
          \<or> (data_type d = Some (lit ''start'') \<and> state s \<noteq> Started
               \<and> map_of (ffmpegProcesses w) (stream cl) = None \<and> host cl)"
  proof -
    have m: "message U e c (Parsed d) w = command e c d cl s w"
      using k by (simp add: message_known)
    from t consider
        (alive) "data_type d = Some (lit ''keepAlive'')" "state s = Started"
          "map_of (ffmpegProcesses w) (stream cl) \<noteq> None"
      | (chat) "data_type d = Some (lit ''message'')" "truthy (data_message d)"
      | (start) "data_type d = Some (lit ''start'')" "state s \<noteq> Started"
          "map_of (ffmpegProcesses w) (stream cl) = None" "host cl"
      by argo
    then show ?thesis
    proof cases
      case alive
      then show ?thesis
        unfolding m command_keepAlive [OF alive(1)] by (auto simp: update_conv')
    next
      case chat
      then show ?thesis
        unfolding m command_chat [OF chat(1)]
        by (auto simp: update_conv' truthy_def split: option.splits)
    next
      case start
      then show ?thesis
        unfolding m command_start [OF start(1)] by (auto simp: update_conv')
    qed
  qed
  have mono: "\<exists>s'. map_of (streams w0) i = Some s'
          \<and> (keepAlive s' = keepAlive s0 \<or> keepAlive s' = now e)
          \<and> (keepAlive s0 \<le> now e \<longrightarrow> keepAlive s0 \<le> keepAlive s')"
    if r: "message U e c m w = (err, effs0, w0)" and i: "map_of (streams w) i = Some s0"
    using message_streams [OF r] i
    by (auto simp: update_conv' split: if_splits)
  from pin mono show ?thesis by blast
qed

theorem keepAlive_after_message_witness:
  "map_of (websocketClients world3) ws1 = Some host1
   \<and> map_of (streams world3) (stream host1)
       = Some (stream1\<lparr>state := Started, keepAlive := 2000\<rparr>)
   \<and> truthy (data_stream keepAlive1)
   \<and> data_type keepAlive1 = Some (lit ''keepAlive'')
   \<and> map_of (ffmpegProcesses world3) (stream host1) = Some proc1
   \<and> message latin1_rows env_later ws1 (Parsed keepAlive1) world3
       = (None, [Send ws1 (Success (Some (lit ''keepAlive'')) KeepAliveRegistered)],
          world3\<lparr>streams := [(S1, stream1\<lparr>state := Started, keepAlive := 3000\<rparr>)]\<rparr>)
   \<and> (\<exists>effs w' s'. message latin1_rows env_later ws1 (Parsed keepAlive1) world3
                      = (None, effs, w')
          \<and> map_of (streams w') (stream host1) = Some s'
          \<and> keepAlive s' = now env_later)
   \<and> map_of (websocketClients world4) ws2 = Some viewer2
   \<and> map_of (streams world4) (stream viewer2) = Some stream1
   \<and> data_type chat1 = Some (lit ''message'') \<and> truthy (data_message chat1)
   \<and> (\<exists>effs w' s'. message latin1_rows env1 ws2 (Parsed chat1) world4 = (None, effs, w')
          \<and> map_of (streams w') (stream viewer2) = Some s'
          \<and> keepAlive s' = now env1)
   \<and> map_of (websocketClients world2) ws1 = Some host1
   \<and> map_of (streams world2) (stream host1) = Some stream1
   \<and> data_type start1 = Some (lit ''start'') \<and> state stream1 \<noteq> Started
   \<and> map_of (ffmpegProcesses world2) (stream host1) = None \<and> host host1
   \<and> (\<exists>effs w' s'. message latin1_rows env1 ws1 (Parsed start1) world2 = (None, effs, w')
          \<and> map_of (streams w') (stream host1) = Some s'
          \<and> keepAlive s' = now env1)
   \<and> map_of (streams world3) S1 = Some (stream1\<lparr>state := Started, keepAlive := 2000\<rparr>)
   \<and> keepAlive (stream1\<lparr>state := Started, keepAlive := 2000\<rparr>) \<le> now env_later
   \<and> (\<exists>s'. map_of (streams
               (world3\<lparr>streams := [(S1, stream1\<lparr>state := Started, keepAlive := 3000\<rparr>)]\<rparr>)) S1
             = Some s'
          \<and> keepAlive (stream1\<lparr>state := Started, keepAlive := 2000\<rparr>) \<le> keepAlive s')"
proof -
  have t: "truthy (data_stream keepAlive1)" "data_type keepAlive1 = Some (lit ''keepAlive'')"
      "truthy (data_stream chat1)" "data_type chat1 = Some (lit ''message'')"
      "truthy (data_message chat1)"
      "truthy (data_stream start1)" "data_type start1 = Some (lit ''start'')"
    by (simp_all add: sample_defs truthy_def lit_def)
  have c3: "map_of (websocketClients world3) ws1 = Some host1"
      "map_of (streams world3) (stream host1)
         = Some (stream1\<lparr>state := Started, keepAlive := 2000\<rparr>)"
      "state (stream1\<lparr>state := Started, keepAlive := 2000\<rparr>) = Started"
      "map_of (ffmpegProcesses world3) (stream host1) = Some proc1"
      "map_of (streams world3) S1 = Some (stream1\<lparr>state := Started, keepAlive := 2000\<rparr>)"
      "keepAlive (stream1\<lparr>state := Started, keepAlive := 2000\<rparr>) \<le> now env_later"
    by (simp_all add: sample_defs)
  have c4: "map_of (websocketClients world4) ws2 = Some viewer2"
      "map_of (streams world4) (stream viewer2) = Some stream1"
    by (simp_all add: sample_defs)
  have c2: "map_of (websocketClients world2) ws1 = Some host1"
      "map_of (streams world2) (stream host1) = Some stream1"
      "state stream1 \<noteq> Started" "map_of (ffmpegProcesses world2) (stream host1) = None"
      "host host1"
    by (simp_all add: sample_defs)
  have a: "message latin1_rows env_later ws1 (Parsed keepAlive1) world3
       = (None, [Send ws1 (Success (Some (lit ''keepAlive'')) KeepAliveRegistered)],
          world3\<lparr>streams := [(S1, stream1\<lparr>state := Started, keepAlive := 3000\<rparr>)]\<rparr>)"
    by (simp add: sample_defs env_later_def message_defs truthy_def command_def touch_def
        lit_def)
  note i1 = keepAlive_after_message
    [of world3 ws1 host1 "stream1\<lparr>state := Started, keepAlive := 2000\<rparr>" keepAlive1
        latin1_rows env_later "Parsed keepAlive1" None
        "[Send ws1 (Success (Some (lit ''keepAlive'')) KeepAliveRegistered)]"
        "world3\<lparr>streams := [(S1, stream1\<lparr>state := Started, keepAlive := 3000\<rparr>)]\<rparr>"
        S1 "stream1\<lparr>state := Started, keepAlive := 2000\<rparr>"]
  note i2 = keepAlive_after_message
    [of world4 ws2 viewer2 stream1 chat1 latin1_rows env1 Unparseable]
  note i3 = keepAlive_after_message
    [of world2 ws1 host1 stream1 start1 latin1_rows env1 Unparseable]
  have r1: "\<exists>effs w' s'. message latin1_rows env_later ws1 (Parsed keepAlive1) world3
                      = (None, effs, w')
          \<and> map_of (streams w') (stream host1) = Some s'
          \<and> keepAlive s' = now env_later"
    using i1 t(1,2) c3(1-4) by blast
  have r2: "\<exists>effs w' s'. message latin1_rows env1 ws2 (Parsed chat1) world4 = (None, effs, w')
          \<and> map_of (streams w') (stream viewer2) = Some s'
          \<and> keepAlive s' = now env1"
    using i2 t(3-5) c4 by blast
  have r3: "\<exists>effs w' s'. message latin1_rows env1 ws1 (Parsed start1) world2 = (None, effs, w')
          \<and> map_of (streams w') (stream host1) = Some s'
          \<and> keepAlive s' = now env1"
    using i3 t(6,7) c2 by blast
  have r4: "\<exists>s'. map_of (streams
               (world3\<lparr>streams := [(S1, stream1\<lparr>state := Started, keepAlive := 3000\<rparr>)]\<rparr>)) S1
             = Some s'
          \<and> keepAlive (stream1\<lparr>state := Started, keepAlive := 2000\<rparr>) \<le> keepAlive s'"
    using i1 a c3(5,6) by blast
  from t c3 c4 c2 a r1 r2 r3 r4 show ?thesis by blast
qed

subsection \<open>The command message\<close>

text \<open>
  C7, as stated: a subscribed connection that sends a chat message with a body has the
  \<open>keepAlive\<close> of its stream updated and the chat published to the stream's group. It
  fails on the code in two ways. For \<open>{type: "message", message: "hi"}\<close> the sender is
  answered "No stream supplied!" and closed, nothing is published and \<open>keepAlive\<close> is as
  before. And when the stream of the subscribed connection has left the registry (in
  \<open>world3\<close> its transcoder exits, which gives \<open>world5\<close>), the message with the field
  \<open>stream\<close> and a body is answered "Stream ... ended!" and the connection closed, and
  nothing is published.
\<close>

theorem chat_without_stream_field_is_rejected:
  "map_of (websocketClients world2) ws1 = Some host1
   \<and> map_of (streams world2) (stream host1) = Some stream1
   \<and> data_type chat_bare = Some (lit ''message'')
   \<and> data_message chat_bare = Some (lit ''hi'')
   \<and> message latin1_rows env1 ws1 (Parsed chat_bare) world2
       = (None, [Send ws1 (Failure (Some (lit ''message'')) NoStreamSupplied), Close ws1],
          world1)
   \<and> streams world1 = streams world2
   \<and> step cfg1 (Exited S1 dir1) world3 = (None, [], world5)
   \<and> map_of (websocketClients world5) ws1 = Some host1
   \<and> map_of (streams world5) (stream host1) = None
   \<and> data_type chat1 = Some (lit ''message'')
   \<and> data_stream chat1 = Some S1
   \<and> data_message chat1 = Some (lit ''hi'')
   \<and> message latin1_rows env1 ws1 (Parsed chat1) world5
       = (None,
          [Send ws1 (Failure (Some (lit ''message'')) (StreamEnded (Some S1))), Close ws1],
          world6)"
  by (simp add: sample_defs message_defs truthy_def reject_def ws_close_def forget_def
      ffmpeg_exited_def rmdir_def beneath_def lit_def)

text \<open>
  C7, amended: for every subscribed connection, a \<open>message\<close> command without a non-empty
  field \<open>stream\<close> is answered with the failure "No stream supplied!" and the connection is
  closed and forgotten, nothing being published and the registry staying as it is; one
  with a non-empty field \<open>stream\<close>, when the stream of the connection is no longer in the
  registry, is answered with the failure "Stream ... ended!" and the connection is closed
  and forgotten in the same way; one with a non-empty field \<open>stream\<close>, when the stream is
  in the registry, fails, with a failure answer, nothing published and the state
  unchanged, if its body is empty or absent; otherwise the \<open>keepAlive\<close> of the stream is
  set to the current time, nothing else changes, and one chat event with the sender's
  username, host flag, country and the body is published to the topic of the stream, that
  is, delivered to every connection subscribed to it.
\<close>

theorem chat_command:
  assumes "map_of (websocketClients w) c = Some cl"
      and "data_type d = Some (lit ''message'')"
  shows "(\<not> truthy (data_stream d) \<longrightarrow>
            message U e c (Parsed d) w
              = (None, [Send c (Failure (data_type d) NoStreamSupplied), Close c], ws_close c w)
            \<and> map_of (websocketClients (ws_close c w)) c = None
            \<and> streams (ws_close c w) = streams w)
       \<and> (truthy (data_stream d) \<and> map_of (streams w) (stream cl) = None \<longrightarrow>
            message U e c (Parsed d) w
              = (None, [Send c (Failure (data_type d) (StreamEnded (data_stream d))), Close c],
                 ws_close c w)
            \<and> map_of (websocketClients (ws_close c w)) c = None
            \<and> streams (ws_close c w) = streams w)
       \<and> (truthy (data_stream d) \<and> map_of (streams w) (stream cl) = Some s \<longrightarrow>
            (\<not> truthy (data_message d) \<longrightarrow>
               message U e c (Parsed d) w
                 = (None, [Send c (Failure (data_type d) NoMessage)], w))
          \<and> (data_message d = Some body \<and> body \<noteq> [] \<longrightarrow>
               message U e c (Parsed d) w
                 = (None,
                    [Publish (stream cl)
                       (Chat (data_type d) (username cl) (host cl) (country cl) body)],
                    w\<lparr>streams := AList.update (stream cl) (s\<lparr>keepAlive := now e\<rparr>) (streams w)\<rparr>)
               \<and> map_of (streams
                    (w\<lparr>streams := AList.update (stream cl) (s\<lparr>keepAlive := now e\<rparr>)
                                     (streams w)\<rparr>)) (stream cl)
                   = Some (s\<lparr>keepAlive := now e\<rparr>)
               \<and> delivered
                    (w\<lparr>streams := AList.update (stream cl) (s\<lparr>keepAlive := now e\<rparr>)
                                     (streams w)\<rparr>)
                    (Publish (stream cl)
                       (Chat (data_type d) (username cl) (host cl) (country cl) body))
                   = map (\<lambda>c'. (c', Chat (data_type d) (username cl) (host cl) (country cl) body))
                       (subscribers w (stream cl))))"
proof -
  have closed: "map_of (websocketClients (ws_close c w)) c = None
      \<and> streams (ws_close c w) = streams w"
    by (simp add: ws_close_clients ws_close_frame)
  have a: "message U e c (Parsed d) w
        = (None, [Send c (Failure (data_type d) NoStreamSupplied), Close c], ws_close c w)"
    if "\<not> truthy (data_stream d)"
    using that by (rule message_without_stream)
  have b: "message U e c (Parsed d) w
        = (None, [Send c (Failure (data_type d) (StreamEnded (data_stream d))), Close c],
           ws_close c w)"
    if "truthy (data_stream d)" "map_of (streams w) (stream cl) = None"
    using that assms(1) by (simp add: message_stream_ended)
  have m: "message U e c (Parsed d) w = command e c d cl s w"
    if "truthy (data_stream d)" "map_of (streams w) (stream cl) = Some s"
    using that assms(1) by (simp add: message_known)
  have k1: "command e c d cl s w = (None, [Send c (Failure (data_type d) NoMessage)], w)"
    if "\<not> truthy (data_message d)"
    using that unfolding command_chat [OF assms(2)]
    by (auto simp: truthy_def split: option.splits)
  have k2: "command e c d cl s w
        = (None,
           [Publish (stream cl)
              (Chat (data_type d) (username cl) (host cl) (country cl) body)],
           w\<lparr>streams := AList.update (stream cl) (s\<lparr>keepAlive := now e\<rparr>) (streams w)\<rparr>)"
    if "data_message d = Some body" "body \<noteq> []"
    using that unfolding command_chat [OF assms(2)] by simp
  have k3: "map_of (streams
                    (w\<lparr>streams := AList.update (stream cl) (s\<lparr>keepAlive := now e\<rparr>)
                                     (streams w)\<rparr>)) (stream cl)
                   = Some (s\<lparr>keepAlive := now e\<rparr>)"
    by (simp add: update_conv')
  have k4: "delivered
                    (w\<lparr>streams := AList.update (stream cl) (s\<lparr>keepAlive := now e\<rparr>)
                                     (streams w)\<rparr>)
                    (Publish (stream cl)
                       (Chat (data_type d) (username cl) (host cl) (country cl) body))
                   = map (\<lambda>c'. (c', Chat (data_type d) (username cl) (host cl) (country cl) body))
                       (subscribers w (stream cl))"
    by (simp add: subscribers_def)
  from closed a b m k1 k2 k3 k4 show ?thesis by simp
qed

theorem chat_command_witness:
  "map_of (websocketClients world4) ws2 = Some viewer2
   \<and> data_type chat1 = Some (lit ''message'')
   \<and> truthy (data_stream chat1)
   \<and> map_of (streams world4) (stream viewer2) = Some stream1
   \<and> data_message chat1 = Some (lit ''hi'') \<and> lit ''hi'' \<noteq> []
   \<and> message latin1_rows env1 ws2 (Parsed chat1) world4
       = (None,
          [Publish (stream viewer2)
             (Chat (data_type chat1) (username viewer2) (host viewer2) (country viewer2)
                (lit ''hi''))],
          world4\<lparr>streams := AList.update (stream viewer2) (stream1\<lparr>keepAlive := now env1\<rparr>)
                                (streams world4)\<rparr>)
   \<and> Chat (data_type chat1) (username viewer2) (host viewer2) (country viewer2) (lit ''hi'')
       = Chat (Some (lit ''message'')) (lit ''carol'') False None (lit ''hi'')
   \<and> world4\<lparr>streams := AList.update (stream viewer2) (stream1\<lparr>keepAlive := now env1\<rparr>)
                             (streams world4)\<rparr>
       = world4\<lparr>streams := [(S1, stream1\<lparr>keepAlive := 1000\<rparr>)]\<rparr>
   \<and> subscribers world4 (stream viewer2) = [ws1, ws2]
   \<and> delivered
        (world4\<lparr>streams := AList.update (stream viewer2) (stream1\<lparr>keepAlive := now env1\<rparr>)
                              (streams world4)\<rparr>)
        (Publish (stream viewer2)
           (Chat (data_type chat1) (username viewer2) (host viewer2) (country viewer2)
              (lit ''hi'')))
       = [(ws1, Chat (data_type chat1) (username viewer2) (host viewer2) (country viewer2)
                  (lit ''hi'')),
          (ws2, Chat (data_type chat1) (username viewer2) (host viewer2) (country viewer2)
                  (lit ''hi''))]
   \<and> data_type chat_empty = Some (lit ''message'')
   \<and> truthy (data_stream chat_empty)
   \<and> \<not> truthy (data_message chat_empty)
   \<and> message latin1_rows env1 ws2 (Parsed chat_empty) world4
       = (None, [Send ws2 (Failure (data_type chat_empty) NoMessage)], world4)
   \<and> data_type chat_bare = Some (lit ''message'')
   \<and> \<not> truthy (data_stream chat_bare)
   \<and> message latin1_rows env1 ws2 (Parsed chat_bare) world4
       = (None, [Send ws2 (Failure (data_type chat_bare) NoStreamSupplied), Close ws2],
          ws_close ws2 world4)
   \<and> map_of (websocketClients (ws_close ws2 world4)) ws2 = None
   \<and> map_of (websocketClients world5) ws1 = Some host1
   \<and> map_of (streams world5) (stream host1) = None
   \<and> message latin1_rows env1 ws1 (Parsed chat1) world5
       = (None, [Send ws1 (Failure (data_type chat1) (StreamEnded (data_stream chat1))),
                 Close ws1],
          ws_close ws1 world5)"
proof -
  have t: "data_type chat1 = Some (lit ''message'')" "truthy (data_stream chat1)"
      "data_message chat1 = Some (lit ''hi'')" "lit ''hi'' \<noteq> []"
      "data_type chat_empty = Some (lit ''message'')" "truthy (data_stream chat_empty)"
      "\<not> truthy (data_message chat_empty)"
      "data_type chat_bare = Some (lit ''message'')" "\<not> truthy (data_stream chat_bare)"
    by (simp_all add: sample_defs truthy_def lit_def)
  have c4: "map_of (websocketClients world4) ws2 = Some viewer2"
      "map_of (streams world4) (stream viewer2) = Some stream1"
      "subscribers world4 (stream viewer2) = [ws1, ws2]"
    by (simp_all add: sample_defs subscribers_def)
  have c5: "map_of (websocketClients world5) ws1 = Some host1"
      "map_of (streams world5) (stream host1) = None"
    by (simp_all add: sample_defs)
  have e: "Chat (data_type chat1) (username viewer2) (host viewer2) (country viewer2)
             (lit ''hi'')
       = Chat (Some (lit ''message'')) (lit ''carol'') False None (lit ''hi'')"
      "world4\<lparr>streams := AList.update (stream viewer2) (stream1\<lparr>keepAlive := now env1\<rparr>)
                             (streams world4)\<rparr>
       = world4\<lparr>streams := [(S1, stream1\<lparr>keepAlive := 1000\<rparr>)]\<rparr>"
    by (simp_all add: sample_defs)
  note i1 = chat_command [OF c4(1) t(1), of latin1_rows env1 stream1 "lit ''hi''"]
  note i2 = chat_command [OF c4(1) t(5), of latin1_rows env1 stream1 "lit ''hi''"]
  note i3 = chat_command [OF c4(1) t(8), of latin1_rows env1 stream1 "lit ''hi''"]
  note i4 = chat_command [OF c5(1) t(1), of latin1_rows env1 stream1 "lit ''hi''"]
  have r1: "message latin1_rows env1 ws2 (Parsed chat1) world4
       = (None,
          [Publish (stream viewer2)
             (Chat (data_type chat1) (username viewer2) (host viewer2) (country viewer2)
                (lit ''hi''))],
          world4\<lparr>streams := AList.update (stream viewer2) (stream1\<lparr>keepAlive := now env1\<rparr>)
                                (streams world4)\<rparr>)"
      "delivered
        (world4\<lparr>streams := AList.update (stream viewer2) (stream1\<lparr>keepAlive := now env1\<rparr>)
                              (streams world4)\<rparr>)
        (Publish (stream viewer2)
           (Chat (data_type chat1) (username viewer2) (host viewer2) (country viewer2)
              (lit ''hi'')))
       = [(ws1, Chat (data_type chat1) (username viewer2) (host viewer2) (country viewer2)
                  (lit ''hi'')),
          (ws2, Chat (data_type chat1) (username viewer2) (host viewer2) (country viewer2)
                  (lit ''hi''))]"
    using i1 t(2-4) c4(2,3) by simp_all
  have r2: "message latin1_rows env1 ws2 (Parsed chat_empty) world4
       = (None, [Send ws2 (Failure (data_type chat_empty) NoMessage)], world4)"
    using i2 t(6,7) c4(2) by simp
  have r3: "message latin1_rows env1 ws2 (Parsed chat_bare) world4
       = (None, [Send ws2 (Failure (data_type chat_bare) NoStreamSupplied), Close ws2],
          ws_close ws2 world4)"
      "map_of (websocketClients (ws_close ws2 world4)) ws2 = None"
    using i3 t(9) by simp_all
  have r4: "message latin1_rows env1 ws1 (Parsed chat1) world5
       = (None, [Send ws1 (Failure (data_type chat1) (StreamEnded (data_stream chat1))),
                 Close ws1],
          ws_close ws1 world5)"
    using i4 t(2) c5(2) by simp
  from t c4 c5 e r1 r2 r3 r4 show ?thesis by blast
qed

end
